theory Spec2Isabelle
  imports Complex_Main "HOL-Library.AList"
begin

section \<open>Values, errors and outcomes\<close>

text \<open>
  The keyword arguments handed to \<^verbatim>\<open>Node._send\<close> are a Python dict; its values are
  strings, integers, booleans and nested dicts (the voice server event). A dict keeps
  insertion order, so it is an association list.
\<close>

datatype jval = JStr string | JInt int | JBool bool | JObj "(string \<times> jval) list"

type_synonym payload = "(string \<times> jval) list"

text \<open>
  The exceptions the modelled code can raise. \<^verbatim>\<open>WavelinkException\<close> carries its message.
  \<^verbatim>\<open>SendError\<close> stands for whatever \<^verbatim>\<open>Node._send\<close> raises when the transport fails,
  \<^verbatim>\<open>GatewayError\<close> for whatever the gateway socket of discord raises.
\<close>

datatype error =
    WavelinkException string
  | ZeroConnectedNodes string
  | TypeError
  | AttributeError
  | KeyError
  | SendError
  | GatewayError

section \<open>track.py\<close>

text \<open>
  The raw info dict of a track, by key. \<^verbatim>\<open>None\<close> is a missing key (or a null value), for
  which \<^verbatim>\<open>info.get\<close> returns Python's \<^verbatim>\<open>None\<close>.
\<close>

record track_info =
  info_title :: "string option"
  info_identifier :: "string option"
  info_length :: "real option"
  info_uri :: "string option"
  info_author :: "string option"
  info_isStream :: "bool option"

record track =
  track_id :: string
  info :: track_info
  query :: "string option"
  title :: "string option"
  track_identifier :: "string option"
  ytid :: "string option"
  track_length :: "real option"
  duration :: "real option"
  uri :: "string option"
  author :: "string option"
  is_stream :: "bool option"
  dead :: bool
  thumb :: "string option"

text \<open>The character class \<^verbatim>\<open>[a-zA-Z0-9_-]\<close>.\<close>

definition ytid_char :: "char \<Rightarrow> bool" where
  "ytid_char c =
     (c \<in> set ''abcdefghijklmnopqrstuvwxyzABCDEFGHIJKLMNOPQRSTUVWXYZ0123456789_-'')"

text \<open>
  \<^verbatim>\<open>re.match(r"^[a-zA-Z0-9_-]{11}$", s)\<close> for a string \<open>s\<close>: eleven characters of the
  class, then the end of the string. Without \<^verbatim>\<open>re.MULTILINE\<close>, Python's \<^verbatim>\<open>$\<close> also
  matches just before a newline that ends the string.
\<close>

definition re_match_ytid :: "string \<Rightarrow> bool" where
  "re_match_ytid s =
     (list_all ytid_char (take 11 s) \<and>
      (length s = 11 \<or> (length s = 12 \<and> drop 11 s = [CHR 0x0A])))"

text \<open>
  \<^verbatim>\<open>Track.__init__(self, id_, info, query=None)\<close>. \<^verbatim>\<open>re.match\<close> raises
  \<^verbatim>\<open>TypeError\<close> when its second argument is \<^verbatim>\<open>None\<close>, so the constructor raises when
  the info dict has no identifier. \<^verbatim>\<open>if self.ytid\<close> is the truth value of an optional
  string: false for \<^verbatim>\<open>None\<close> and for the empty string.
\<close>

definition Track_init :: "string \<Rightarrow> track_info \<Rightarrow> string option \<Rightarrow> error + track" where
  "Track_init id_arg tinfo q =
     (case info_identifier tinfo of
        None \<Rightarrow> Inl TypeError
      | Some ident \<Rightarrow>
          (let y = (if re_match_ytid ident then Some ident else None) in
           Inr \<lparr> track_id = id_arg, info = tinfo, query = q,
                 title = info_title tinfo,
                 track_identifier = Some ident,
                 ytid = y,
                 track_length = info_length tinfo,
                 duration = info_length tinfo,
                 uri = info_uri tinfo,
                 author = info_author tinfo,
                 is_stream = info_isStream tinfo,
                 dead = False,
                 thumb = (case y of
                            None \<Rightarrow> None
                          | Some v \<Rightarrow>
                              if v = [] then None
                              else Some (''https://img.youtube.com/vi/'' @ v @ ''/maxresdefault.jpg'')) \<rparr>))"

section \<open>player.py: data\<close>

text \<open>
  \<^verbatim>\<open>str(n)\<close> for a Python integer: its decimal digits, with a minus sign when negative.
\<close>

definition digit :: "nat \<Rightarrow> char" where
  "digit n = ''0123456789'' ! n"

function str_nat :: "nat \<Rightarrow> string" where
  "str_nat n = (if n < 10 then [digit n] else str_nat (n div 10) @ [digit (n mod 10)])"
  by pat_completeness auto
termination
  by (relation "measure id") auto

declare str_nat.simps [simp del]

definition str_int :: "int \<Rightarrow> string" where
  "str_int i = (if i < 0 then CHR ''-'' # str_nat (nat (- i)) else str_nat (nat i))"

text \<open>
  \<^verbatim>\<open>int(x)\<close> for a Python number: truncation toward zero. Times are Python floats
  (milliseconds); they are modelled as exact reals.
\<close>

definition py_int :: "real \<Rightarrow> int" where
  "py_int x = (if 0 \<le> x then \<lfloor>x\<rfloor> else \<lceil>x\<rceil>)"

text \<open>
  The discord objects the player reads: a channel knows its id and its guild, a guild its
  id and the ids of its channels.
\<close>

record guild =
  guild_id :: int
  channels :: "int list"

record channel =
  channel_id :: int
  channel_guild :: guild

text \<open>
  The attributes of \<^verbatim>\<open>Player\<close> set by \<^verbatim>\<open>__init__\<close>. \<open>ident\<close> is the identity of the player
  object (what a node's \<^verbatim>\<open>players\<close> dict holds), \<open>node\<close> the identity of the node object
  it belongs to, \<open>connected_flag\<close> the attribute \<^verbatim>\<open>_connected\<close>. \<open>channel\<close> is optional
  because \<^verbatim>\<open>on_voice_state_update\<close> assigns it the result of \<^verbatim>\<open>discord.utils.get\<close>. The
  equalizer is never read by the modelled methods and is left out.
\<close>

record player =
  ident :: nat
  node :: nat
  channel :: "channel option"
  voice_state :: payload
  connected_flag :: bool
  last_update :: "real option"
  last_position :: "real option"
  position_timestamp :: "real option"
  volume :: int
  paused :: bool
  track :: "track option"

text \<open>
  Modelled from the spec: the class \<^verbatim>\<open>Node\<close> (\<^verbatim>\<open>node.py\<close>) is not among the sources. A node
  holds the registry \<^verbatim>\<open>players\<close> (guild id to player), the region and shard it serves, and
  whether it accepts new players.
\<close>

record node_obj =
  players :: "int \<rightharpoonup> nat"
  available :: bool
  region :: string
  shard_id :: int

text \<open>
  Modelled from the spec: \<^verbatim>\<open>Node.close()\<close> is not among the sources. It marks the node
  closing: it accepts no new players.
\<close>

definition close :: "node_obj \<Rightarrow> node_obj" where
  "close n = n\<lparr>available := False\<rparr>"

text \<open>
  Modelled from the spec: \<^verbatim>\<open>Node.open()\<close> is not among the sources. It marks the node open
  again.
\<close>

definition open_node :: "node_obj \<Rightarrow> node_obj" where
  "open_node n = n\<lparr>available := True\<rparr>"

text \<open>
  The state the methods of one player work on: the player itself, the node objects by
  identity, and \<open>sent\<close>, the calls of \<^verbatim>\<open>Node._send\<close> in the order they were made (node,
  keyword arguments), whether or not the call raised.
\<close>

record world =
  self :: player
  nodes :: "nat \<Rightarrow> node_obj"
  sent :: "(nat \<times> payload) list"

datatype outcome = Returned | Raised error

text \<open>
  Modelled from the spec: \<^verbatim>\<open>Node._send\<close> is not among the sources. A call hands a command
  (its keyword arguments) to the node's control channel; a transport failure is not
  swallowed, it propagates to the caller. Whether a call raises is the parameter
  \<open>raises\<close>, a predicate on the node and the keyword arguments.
\<close>

type_synonym transport = "nat \<Rightarrow> payload \<Rightarrow> bool"

definition send :: "transport \<Rightarrow> nat \<Rightarrow> payload \<Rightarrow> world \<Rightarrow> outcome \<times> world" where
  "send raises n kw w =
     (if raises n kw then Raised SendError else Returned, w\<lparr>sent := sent w @ [(n, kw)]\<rparr>)"

text \<open>
  \<^verbatim>\<open>Client.get_best_node(region=..., shard_id=...)\<close> is not among the sources: the
  selector is a parameter that reads the node objects.
\<close>

type_synonym selector = "(nat \<Rightarrow> node_obj) \<Rightarrow> string \<Rightarrow> int \<Rightarrow> nat option"

section \<open>player.py: methods\<close>

definition is_connected :: "player \<Rightarrow> bool" where
  "is_connected p = connected_flag p"

definition is_playing :: "player \<Rightarrow> bool" where
  "is_playing p = (is_connected p \<and> track p \<noteq> None)"

definition is_paused :: "player \<Rightarrow> bool" where
  "is_paused p = paused p"

text \<open>\<^verbatim>\<open>min(a, b)\<close> on two optional numbers: comparing with \<^verbatim>\<open>None\<close> raises.\<close>

definition py_min :: "real option \<Rightarrow> real option \<Rightarrow> error + real" where
  "py_min a b =
     (case a of
        None \<Rightarrow> Inl TypeError
      | Some x \<Rightarrow> (case b of None \<Rightarrow> Inl TypeError | Some y \<Rightarrow> Inr (min x y)))"

text \<open>
  The property \<^verbatim>\<open>Player.position\<close>; \<open>now\<close> is the reading \<^verbatim>\<open>time.time() * 1000\<close>. It
  assigns nothing, so it is a function of the player alone.
\<close>

definition position :: "real \<Rightarrow> player \<Rightarrow> error + real" where
  "position now p =
     (if \<not> is_playing p then Inr 0
      else
        (case track p of
           None \<Rightarrow> Inl AttributeError
         | Some t \<Rightarrow>
             if is_paused p then py_min (last_position p) (duration t)
             else
               (case last_update p of
                  None \<Rightarrow> Inl TypeError
                | Some lu \<Rightarrow>
                    (case last_position p of
                       None \<Rightarrow> Inl TypeError
                     | Some lp \<Rightarrow>
                         (let difference = now - lu; pos = lp + difference in
                          case duration t of
                            None \<Rightarrow> Inl TypeError
                          | Some d \<Rightarrow> if pos > d then Inr 0 else Inr (min pos d))))))"

text \<open>
  An entry of the dict a node reports: the key is missing, or present with the value
  \<^verbatim>\<open>null\<close>, or present with a number. \<^verbatim>\<open>d.get(key, default)\<close> gives the default for a
  missing key only: a present \<^verbatim>\<open>null\<close> comes back as \<^verbatim>\<open>None\<close>.
\<close>

datatype entry = Missing | Null | Present real

definition dict_get :: "entry \<Rightarrow> real \<Rightarrow> real option" where
  "dict_get e default_value =
     (case e of Missing \<Rightarrow> Some default_value | Null \<Rightarrow> None | Present x \<Rightarrow> Some x)"

record node_state =
  state_position :: entry
  state_time :: entry

text \<open>
  \<^verbatim>\<open>update_state(state)\<close>: \<open>st\<close> is what the argument holds under the key \<^verbatim>\<open>'state'\<close>,
  \<open>None\<close> when the key is missing; \<^verbatim>\<open>state['state']\<close> raises \<^verbatim>\<open>KeyError\<close> then, before
  anything is assigned. \<open>now\<close> is the reading \<^verbatim>\<open>time.time() * 1000\<close>.
\<close>

definition update_state :: "real \<Rightarrow> node_state option \<Rightarrow> world \<Rightarrow> outcome \<times> world" where
  "update_state now st w =
     (case st of
        None \<Rightarrow> (Raised KeyError, w)
      | Some s \<Rightarrow>
          (Returned,
           w\<lparr>self := (self w)\<lparr>last_update := Some now,
                                last_position := dict_get (state_position s) 0,
                                position_timestamp := dict_get (state_time s) 0\<rparr>\<rparr>))"

text \<open>
  \<^verbatim>\<open>_dispatch_voice_update\<close>. Its debug line reads \<^verbatim>\<open>self.channel.id\<close> first, which raises
  when the channel is \<^verbatim>\<open>None\<close>.
\<close>

definition dispatch_voice_update :: "transport \<Rightarrow> world \<Rightarrow> outcome \<times> world" where
  "dispatch_voice_update raises w =
     (case channel (self w) of
        None \<Rightarrow> (Raised AttributeError, w)
      | Some c \<Rightarrow>
          if {''sessionId'', ''event''} = set (map fst (voice_state (self w)))
          then send raises (node (self w))
                 ([(''op'', JStr ''voiceUpdate''),
                   (''guildId'', JStr (str_int (guild_id (channel_guild c))))]
                  @ voice_state (self w)) w
          else (Returned, w))"

definition on_voice_server_update :: "transport \<Rightarrow> jval \<Rightarrow> world \<Rightarrow> outcome \<times> world" where
  "on_voice_server_update raises data w =
     dispatch_voice_update raises
       (w\<lparr>self := (self w)\<lparr>voice_state := AList.update ''event'' data (voice_state (self w))\<rparr>\<rparr>)"

text \<open>
  \<^verbatim>\<open>on_voice_state_update\<close>: \<open>session_id\<close> is \<^verbatim>\<open>data['session_id']\<close>, \<open>cid\<close> is
  \<^verbatim>\<open>data['channel_id']\<close>, which the gateway sends as \<^verbatim>\<open>null\<close> or as the decimal string of
  the channel's id; \<open>Some n\<close> is the string whose \<^verbatim>\<open>int(...)\<close> is \<open>n\<close>.
  \<^verbatim>\<open>discord.utils.get(self.guild.channels, id=n)\<close> is the guild's channel of that id, or
  \<^verbatim>\<open>None\<close>.
\<close>

definition on_voice_state_update ::
    "transport \<Rightarrow> string \<Rightarrow> int option \<Rightarrow> world \<Rightarrow> outcome \<times> world" where
  "on_voice_state_update raises session_id cid w =
     (let w1 = w\<lparr>self := (self w)\<lparr>voice_state :=
                   AList.update ''sessionId'' (JStr session_id) (voice_state (self w))\<rparr>\<rparr> in
      case cid of
        None \<Rightarrow> (Returned, w1\<lparr>self := (self w1)\<lparr>voice_state := []\<rparr>\<rparr>)
      | Some n \<Rightarrow>
          (case channel (self w1) of
             None \<Rightarrow> (Raised AttributeError, w1)
           | Some c \<Rightarrow>
               dispatch_voice_update raises
                 (w1\<lparr>self := (self w1)\<lparr>channel :=
                        (if n \<in> set (channels (channel_guild c))
                         then Some \<lparr>channel_id = n, channel_guild = channel_guild c\<rparr>
                         else None)\<rparr>\<rparr>)))"

text \<open>
  Modelled from the spec: \<^verbatim>\<open>events.py\<close> is not among the sources. The three terminal
  notifications \<^verbatim>\<open>hook\<close> tests for, and two events that are none of them.
\<close>

datatype event = TrackEnd | TrackException | TrackStuck | TrackStart | WebsocketClosed

definition hook :: "event \<Rightarrow> world \<Rightarrow> outcome \<times> world" where
  "hook ev w =
     (if ev \<in> {TrackEnd, TrackException, TrackStuck}
      then (Returned, w\<lparr>self := (self w)\<lparr>track := None\<rparr>\<rparr>)
      else (Returned, w))"

text \<open>
  \<^verbatim>\<open>connect\<close> and \<^verbatim>\<open>disconnect\<close> call the gateway socket of discord; \<open>gw_raises\<close> says
  whether that call raised.
\<close>

definition connect :: "bool \<Rightarrow> world \<Rightarrow> outcome \<times> world" where
  "connect gw_raises w =
     (case channel (self w) of
        None \<Rightarrow> (Raised AttributeError, w)
      | Some c \<Rightarrow>
          if gw_raises then (Raised GatewayError, w)
          else (Returned, w\<lparr>self := (self w)\<lparr>connected_flag := True\<rparr>\<rparr>))"

definition disconnect :: "bool \<Rightarrow> world \<Rightarrow> outcome \<times> world" where
  "disconnect gw_raises w =
     (case channel (self w) of
        None \<Rightarrow> (Raised AttributeError, w)
      | Some c \<Rightarrow>
          if gw_raises then (Raised GatewayError, w)
          else (Returned, w\<lparr>self := (self w)\<lparr>connected_flag := False\<rparr>\<rparr>))"

text \<open>Running a second step only when the first returned: an exception ends the method.\<close>

definition and_then ::
    "outcome \<times> world \<Rightarrow> (world \<Rightarrow> outcome \<times> world) \<Rightarrow> outcome \<times> world" where
  "and_then r f = (case fst r of Returned \<Rightarrow> f (snd r) | Raised e \<Rightarrow> r)"

text \<open>
  \<^verbatim>\<open>str(t)\<close> in the debug lines, for \<open>t\<close> a track or \<^verbatim>\<open>None\<close>: \<^verbatim>\<open>Track.__str__\<close> returns
  the title, and Python raises \<^verbatim>\<open>TypeError\<close> when \<^verbatim>\<open>__str__\<close> returns \<^verbatim>\<open>None\<close>.
\<close>

definition str_track :: "track option \<Rightarrow> error + string" where
  "str_track t =
     (case t of
        None \<Rightarrow> Inr ''None''
      | Some tr \<Rightarrow> (case title tr of None \<Rightarrow> Inl TypeError | Some s \<Rightarrow> Inr s))"

text \<open>
  \<^verbatim>\<open>play(track, replace=True, start=0, end=0)\<close>. The payload is built after the fields are
  assigned; \<^verbatim>\<open>self.guild\<close> is \<^verbatim>\<open>self.channel.guild\<close> and raises when the channel is
  \<^verbatim>\<open>None\<close>. The debug line after the send evaluates \<^verbatim>\<open>str(track)\<close>.
\<close>

definition play ::
    "transport \<Rightarrow> track \<Rightarrow> bool \<Rightarrow> int \<Rightarrow> int \<Rightarrow> world \<Rightarrow> outcome \<times> world" where
  "play raises t replace start endt w =
     (if replace \<or> \<not> is_playing (self w) then
        (let w1 = w\<lparr>self := (self w)\<lparr>last_update := Some 0, last_position := Some 0,
                                      position_timestamp := Some 0, paused := False\<rparr>\<rparr>;
             no_replace = (\<not> replace);
             w2 = w1\<lparr>self := (self w1)\<lparr>track := Some t\<rparr>\<rparr>
         in case channel (self w2) of
              None \<Rightarrow> (Raised AttributeError, w2)
            | Some c \<Rightarrow>
                (let kw = [(''op'', JStr ''play''),
                           (''guildId'', JStr (str_int (guild_id (channel_guild c)))),
                           (''track'', JStr (track_id t)),
                           (''noReplace'', JBool no_replace),
                           (''startTime'', JStr (str_int start))]
                          @ (if endt > 0 then [(''endTime'', JStr (str_int endt))] else [])
                 in and_then (send raises (node (self w2)) kw w2)
                      (\<lambda>w3. case str_track (Some t) of
                               Inl e \<Rightarrow> (Raised e, w3)
                             | Inr msg \<Rightarrow> (Returned, w3))))
      else (Returned, w))"

definition stop :: "transport \<Rightarrow> world \<Rightarrow> outcome \<times> world" where
  "stop raises w =
     (case channel (self w) of
        None \<Rightarrow> (Raised AttributeError, w)
      | Some c \<Rightarrow>
          and_then
            (send raises (node (self w))
               [(''op'', JStr ''stop''),
                (''guildId'', JStr (str_int (guild_id (channel_guild c))))] w)
            (\<lambda>w1. case str_track (track (self w1)) of
                     Inl e \<Rightarrow> (Raised e, w1)
                   | Inr msg \<Rightarrow> (Returned, w1\<lparr>self := (self w1)\<lparr>track := None\<rparr>\<rparr>)))"

definition set_pause :: "transport \<Rightarrow> bool \<Rightarrow> world \<Rightarrow> outcome \<times> world" where
  "set_pause raises pause_arg w =
     (case channel (self w) of
        None \<Rightarrow> (Raised AttributeError, w)
      | Some c \<Rightarrow>
          and_then
            (send raises (node (self w))
               [(''op'', JStr ''pause''),
                (''guildId'', JStr (str_int (guild_id (channel_guild c)))),
                (''pause'', JBool pause_arg)] w)
            (\<lambda>w1. (Returned, w1\<lparr>self := (self w1)\<lparr>paused := pause_arg\<rparr>\<rparr>)))"

definition pause :: "transport \<Rightarrow> world \<Rightarrow> outcome \<times> world" where
  "pause raises w = set_pause raises True w"

definition resume :: "transport \<Rightarrow> world \<Rightarrow> outcome \<times> world" where
  "resume raises w = set_pause raises False w"

definition set_volume :: "transport \<Rightarrow> int \<Rightarrow> world \<Rightarrow> outcome \<times> world" where
  "set_volume raises v w =
     (let w1 = w\<lparr>self := (self w)\<lparr>volume := max (min v 1000) 0\<rparr>\<rparr> in
      case channel (self w1) of
        None \<Rightarrow> (Raised AttributeError, w1)
      | Some c \<Rightarrow>
          send raises (node (self w1))
            [(''op'', JStr ''volume''),
             (''guildId'', JStr (str_int (guild_id (channel_guild c)))),
             (''volume'', JInt (volume (self w1)))] w1)"

definition seek :: "transport \<Rightarrow> int \<Rightarrow> world \<Rightarrow> outcome \<times> world" where
  "seek raises pos w =
     (case channel (self w) of
        None \<Rightarrow> (Raised AttributeError, w)
      | Some c \<Rightarrow>
          send raises (node (self w))
            [(''op'', JStr ''seek''),
             (''guildId'', JStr (str_int (guild_id (channel_guild c)))),
             (''position'', JInt pos)] w)"

subsection \<open>change_node\<close>

text \<open>
  \<^verbatim>\<open>change_node(node)\<close>, in the four parts it runs one after the other.
  First the choice of the target (source lines 294 to 304): an explicit node must differ
  from the current one; without one the current node is closed, the selector is asked
  for the best node of the current node's region and shard, and the current node is
  opened again.
\<close>

definition change_node_select ::
    "selector \<Rightarrow> nat option \<Rightarrow> world \<Rightarrow> (error + nat) \<times> world" where
  "change_node_select get_best_node arg w =
     (case arg of
        Some n \<Rightarrow>
          if n = node (self w)
          then (Inl (WavelinkException ''Player is already on this node.''), w)
          else (Inr n, w)
      | None \<Rightarrow>
          (let cur = node (self w);
               ns1 = (nodes w)(cur := close (nodes w cur));
               best = get_best_node ns1 (region (ns1 cur)) (shard_id (ns1 cur));
               w1 = w\<lparr>nodes := ns1(cur := open_node (ns1 cur))\<rparr>
           in case best of
                None \<Rightarrow> (Inl (WavelinkException ''No Nodes available for changeover.''), w1)
              | Some n \<Rightarrow> (Inr n, w1)))"

text \<open>
  Lines 306 to 308: the player is deleted from the old node's registry (\<^verbatim>\<open>del\<close> raises
  \<^verbatim>\<open>KeyError\<close> on a missing key) and \<^verbatim>\<open>destroy\<close> is sent to the old node. No handler
  surrounds the send.
\<close>

definition change_node_detach :: "transport \<Rightarrow> world \<Rightarrow> outcome \<times> world" where
  "change_node_detach raises w =
     (let old_node = node (self w) in
      case channel (self w) of
        None \<Rightarrow> (Raised AttributeError, w)
      | Some c \<Rightarrow>
          (let gid = guild_id (channel_guild c) in
           if players (nodes w old_node) gid = None then (Raised KeyError, w)
           else
             (let w1 = w\<lparr>nodes := (nodes w)(old_node :=
                            (nodes w old_node)\<lparr>players := (players (nodes w old_node))(gid := None)\<rparr>)\<rparr>
              in send raises old_node
                   [(''op'', JStr ''destroy''), (''guildId'', JStr (str_int gid))] w1)))"

text \<open>Lines 310 and 311: the node is assigned and the player entered in its registry.\<close>

definition change_node_attach :: "nat \<Rightarrow> world \<Rightarrow> outcome \<times> world" where
  "change_node_attach n w =
     (let w1 = w\<lparr>self := (self w)\<lparr>node := n\<rparr>\<rparr> in
      case channel (self w1) of
        None \<Rightarrow> (Raised AttributeError, w1)
      | Some c \<Rightarrow>
          (Returned,
           w1\<lparr>nodes := (nodes w1)(n :=
                 (nodes w1 n)\<lparr>players :=
                    (players (nodes w1 n))(guild_id (channel_guild c) \<mapsto> ident (self w1))\<rparr>)\<rparr>))"

text \<open>
  Lines 313 to 324, the replay on the new node. \<open>now1\<close> is the clock reading inside
  \<^verbatim>\<open>self.position\<close>, \<open>now2\<close> the one assigned to \<^verbatim>\<open>last_update\<close>.
\<close>

definition replay_track :: "transport \<Rightarrow> real \<Rightarrow> real \<Rightarrow> world \<Rightarrow> outcome \<times> world" where
  "replay_track raises now1 now2 w =
     (case track (self w) of
        None \<Rightarrow> (Returned, w)
      | Some t \<Rightarrow>
          (case channel (self w) of
             None \<Rightarrow> (Raised AttributeError, w)
           | Some c \<Rightarrow>
               (case position now1 (self w) of
                  Inl e \<Rightarrow> (Raised e, w)
                | Inr pos \<Rightarrow>
                    and_then
                      (send raises (node (self w))
                         [(''op'', JStr ''play''),
                          (''guildId'', JStr (str_int (guild_id (channel_guild c)))),
                          (''track'', JStr (track_id t)),
                          (''startTime'', JInt (py_int pos))] w)
                      (\<lambda>w1.
                         (let w2 = w1\<lparr>self := (self w1)\<lparr>last_update := Some now2\<rparr>\<rparr> in
                          if is_paused (self w2)
                          then send raises (node (self w2))
                                 [(''op'', JStr ''pause''),
                                  (''guildId'', JStr (str_int (guild_id (channel_guild c)))),
                                  (''pause'', JBool (paused (self w2)))] w2
                          else (Returned, w2))))))"

definition replay_volume :: "transport \<Rightarrow> world \<Rightarrow> outcome \<times> world" where
  "replay_volume raises w =
     (if volume (self w) \<noteq> 100 then
        (case channel (self w) of
           None \<Rightarrow> (Raised AttributeError, w)
         | Some c \<Rightarrow>
             send raises (node (self w))
               [(''op'', JStr ''volume''),
                (''guildId'', JStr (str_int (guild_id (channel_guild c)))),
                (''volume'', JInt (volume (self w)))] w)
      else (Returned, w))"

definition change_node_replay ::
    "transport \<Rightarrow> real \<Rightarrow> real \<Rightarrow> world \<Rightarrow> outcome \<times> world" where
  "change_node_replay raises now1 now2 w =
     and_then
       (and_then
          (if voice_state (self w) \<noteq> [] then dispatch_voice_update raises w else (Returned, w))
          (replay_track raises now1 now2))
       (replay_volume raises)"

definition change_node ::
    "transport \<Rightarrow> selector \<Rightarrow> real \<Rightarrow> real \<Rightarrow> nat option \<Rightarrow> world \<Rightarrow> outcome \<times> world" where
  "change_node raises get_best_node now1 now2 arg w =
     (case change_node_select get_best_node arg w of
        (Inl e, w1) \<Rightarrow> (Raised e, w1)
      | (Inr n, w1) \<Rightarrow>
          and_then
            (and_then (change_node_detach raises w1) (change_node_attach n))
            (change_node_replay raises now1 now2))"

text \<open>
  \<^verbatim>\<open>Player.__init__\<close>: \<open>best\<close> is what \<^verbatim>\<open>self.client.wavelink.get_best_node()\<close> returned,
  \<open>ns\<close> the node objects at that moment.
\<close>

definition Player_init ::
    "nat \<Rightarrow> channel \<Rightarrow> nat option \<Rightarrow> (nat \<Rightarrow> node_obj) \<Rightarrow> error + world" where
  "Player_init i ch best ns =
     (case best of
        None \<Rightarrow> Inl (ZeroConnectedNodes ''Could not find a node to connect with.'')
      | Some n \<Rightarrow>
          Inr \<lparr> self = \<lparr> ident = i, node = n, channel = Some ch, voice_state = [],
                          connected_flag = False, last_update = None, last_position = None,
                          position_timestamp = None, volume = 100, paused = False,
                          track = None \<rparr>,
                 nodes = ns(n := (ns n)\<lparr>players :=
                           (players (ns n))(guild_id (channel_guild ch) \<mapsto> i)\<rparr>),
                 sent = [] \<rparr>)"

subsection \<open>Registration\<close>

text \<open>
  The player is registered on node \<open>n\<close>: the node's registry maps the player's guild id
  to the player.
\<close>

definition registered_on :: "world \<Rightarrow> nat \<Rightarrow> bool" where
  "registered_on w n =
     (case channel (self w) of
        None \<Rightarrow> False
      | Some c \<Rightarrow> players (nodes w n) (guild_id (channel_guild c)) = Some (ident (self w)))"

section \<open>Calls in sequence\<close>

text \<open>
  The methods a caller, the gateway or a node can invoke on the player, with their
  arguments and the clock readings they take. A sequence of calls runs each from the
  state the one before left, whether it returned or raised; every call comes with the
  transport and the selector in force while it runs.
\<close>

datatype call =
    Play track bool int int
  | Stop
  | SetPause bool
  | Pause
  | Resume
  | SetVolume int
  | Seek int
  | ChangeNode real real "nat option"
  | UpdateState real "node_state option"
  | OnVoiceServerUpdate jval
  | OnVoiceStateUpdate string "int option"
  | Hook event
  | Connect bool
  | Disconnect bool

fun step :: "transport \<Rightarrow> selector \<Rightarrow> call \<Rightarrow> world \<Rightarrow> outcome \<times> world" where
  "step raises sel (Play t replace start endt) w = play raises t replace start endt w"
| "step raises sel Stop w = stop raises w"
| "step raises sel (SetPause b) w = set_pause raises b w"
| "step raises sel Pause w = pause raises w"
| "step raises sel Resume w = resume raises w"
| "step raises sel (SetVolume v) w = set_volume raises v w"
| "step raises sel (Seek pos) w = seek raises pos w"
| "step raises sel (ChangeNode now1 now2 arg) w = change_node raises sel now1 now2 arg w"
| "step raises sel (UpdateState now st) w = update_state now st w"
| "step raises sel (OnVoiceServerUpdate data) w = on_voice_server_update raises data w"
| "step raises sel (OnVoiceStateUpdate sid cid) w = on_voice_state_update raises sid cid w"
| "step raises sel (Hook ev) w = hook ev w"
| "step raises sel (Connect gw_raises) w = connect gw_raises w"
| "step raises sel (Disconnect gw_raises) w = disconnect gw_raises w"

fun run :: "(transport \<times> selector \<times> call) list \<Rightarrow> world \<Rightarrow> world" where
  "run [] w = w"
| "run ((raises, sel, c) # cs) w = run cs (snd (step raises sel c w))"

section \<open>Example data\<close>

text \<open>
  Concrete inputs for the closed instances below: a guild with two channels, two nodes,
  a track as \<^verbatim>\<open>Track.__init__\<close> builds it, the world \<^verbatim>\<open>Player.__init__\<close> leaves behind
  on node 1, and that world later on, connected and playing.
\<close>

definition example_guild :: guild where
  "example_guild = \<lparr> guild_id = 42, channels = [5, 6] \<rparr>"

definition example_channel :: channel where
  "example_channel = \<lparr> channel_id = 5, channel_guild = example_guild \<rparr>"

definition example_nodes :: "nat \<Rightarrow> node_obj" where
  "example_nodes = (\<lambda>n. \<lparr> players = Map.empty, available = True, region = ''eu'', shard_id = 0 \<rparr>)"

definition example_info :: track_info where
  "example_info = \<lparr> info_title = Some ''Song'', info_identifier = Some ''dQw4w9WgXcQ'',
                     info_length = Some 10000, info_uri = Some ''https://youtu.be/dQw4w9WgXcQ'',
                     info_author = Some ''Band'', info_isStream = Some False \<rparr>"

definition example_track :: track where
  "example_track =
     \<lparr> track_id = ''QAAAjQIA'', info = example_info, query = None, title = Some ''Song'',
       track_identifier = Some ''dQw4w9WgXcQ'', ytid = Some ''dQw4w9WgXcQ'',
       track_length = Some 10000, duration = Some 10000,
       uri = Some ''https://youtu.be/dQw4w9WgXcQ'', author = Some ''Band'',
       is_stream = Some False, dead = False,
       thumb = Some ''https://img.youtube.com/vi/dQw4w9WgXcQ/maxresdefault.jpg'' \<rparr>"

definition example_player :: player where
  "example_player =
     \<lparr> ident = 7, node = 1, channel = Some example_channel, voice_state = [],
       connected_flag = False, last_update = None, last_position = None,
       position_timestamp = None, volume = 100, paused = False, track = None \<rparr>"

definition example_world :: world where
  "example_world =
     \<lparr> self = example_player,
       nodes = example_nodes(1 := (example_nodes 1)\<lparr>players := [42 \<mapsto> 7]\<rparr>),
       sent = [] \<rparr>"

definition playing_world :: world where
  "playing_world =
     example_world\<lparr>self := example_player\<lparr>connected_flag := True, track := Some example_track,
                                            last_update := Some 1000, last_position := Some 500,
                                            position_timestamp := Some 900\<rparr>\<rparr>"

text \<open>A voice server event as the gateway delivers it.\<close>

definition example_event :: jval where
  "example_event =
     JObj [(''token'', JStr ''tok''), (''guild_id'', JStr ''42''),
           (''endpoint'', JStr ''eu.example:443'')]"

text \<open>
  The playing world once more, paused at volume 50 and with both handshake fragments
  stored.
\<close>

definition paused_world :: world where
  "paused_world =
     playing_world\<lparr>self := (self playing_world)\<lparr>paused := True, volume := 50,
         voice_state := [(''event'', example_event), (''sessionId'', JStr ''abc'')]\<rparr>\<rparr>"

text \<open>A transport that never raises, and one on which every send to node 1 raises.\<close>

definition reliable :: transport where
  "reliable = (\<lambda>n kw. False)"

definition node1_down :: transport where
  "node1_down = (\<lambda>n kw. n = 1)"

text \<open>A selector that knows one other node, node 2, and returns it when it is available.\<close>

definition pick_node2 :: selector where
  "pick_node2 = (\<lambda>ns r s. if available (ns 2) then Some 2 else None)"

section \<open>The example data is what the constructors build\<close>

lemma example_track_built: "Track_init ''QAAAjQIA'' example_info None = Inr example_track"
  by (simp add: Track_init_def example_info_def example_track_def re_match_ytid_def
      ytid_char_def Let_def)

lemma example_world_built:
  "Player_init 7 example_channel (Some 1) example_nodes = Inr example_world"
  by (simp add: Player_init_def example_world_def example_player_def example_channel_def
      example_guild_def example_nodes_def)

lemma example_world_simps:
  "channel (self example_world) = Some example_channel"
  "guild_id (channel_guild example_channel) = 42"
  "channels (channel_guild example_channel) = [5, 6]"
  "node (self example_world) = 1"
  "sent example_world = []"
  "is_connected (self example_world) = False"
  "track (self example_world) = None"
  "paused (self example_world) = False"
  "volume (self example_world) = 100"
  "voice_state (self example_world) = []"
  by (simp_all add: example_world_def example_player_def example_channel_def example_guild_def
      is_connected_def)

lemma playing_world_simps:
  "channel (self playing_world) = Some example_channel"
  "node (self playing_world) = 1"
  "sent playing_world = []"
  "is_connected (self playing_world) = True"
  "track (self playing_world) = Some example_track"
  "paused (self playing_world) = False"
  "volume (self playing_world) = 100"
  "voice_state (self playing_world) = []"
  "last_update (self playing_world) = Some 1000"
  "last_position (self playing_world) = Some 500"
  "nodes playing_world = nodes example_world"
  by (simp_all add: playing_world_def example_world_def example_player_def is_connected_def)

lemma example_track_simps:
  "title example_track = Some ''Song''"
  "track_id example_track = ''QAAAjQIA''"
  "duration example_track = Some 10000"
  by (simp_all add: example_track_def)

lemma str_int_examples:
  "str_int 42 = ''42'' \<and> str_int 0 = ''0'' \<and> str_int 5000 = ''5000'' \<and> str_int (- 5) = ''-5''"
  by (simp add: str_int_def str_nat.simps digit_def)

section \<open>Sequencing and sending\<close>

lemma and_then_Returned [simp]: "and_then (Returned, w) f = f w"
  by (simp add: and_then_def)

lemma and_then_Raised [simp]: "and_then (Raised e, w) f = (Raised e, w)"
  by (simp add: and_then_def)

lemma snd_and_then:
  "snd (and_then r f) = (if fst r = Returned then snd (f (snd r)) else snd r)"
  by (cases r) (auto simp: and_then_def split: outcome.splits)

lemma fst_and_then:
  "fst (and_then r f) = (if fst r = Returned then fst (f (snd r)) else fst r)"
  by (cases r) (auto simp: and_then_def split: outcome.splits)

lemma snd_send [simp]: "snd (send raises n kw w) = w\<lparr>sent := sent w @ [(n, kw)]\<rparr>"
  by (simp add: send_def)

lemma fst_send [simp]: "fst (send raises n kw w) = (if raises n kw then Raised SendError else Returned)"
  by (simp add: send_def)

section \<open>Decimal strings\<close>

text \<open>
  \<^verbatim>\<open>str\<close> is injective on integers: the decimal string a command carries determines the
  integer it was made from.
\<close>

lemma digits_listed: "list_all (\<lambda>k. of_char (digit k) = (48 + k :: nat)) [0..<10]"
  by (simp add: digit_def upt_rec)

lemma digit_value: "n < 10 \<Longrightarrow> of_char (digit n) = (48 + n :: nat)"
  using digits_listed by (simp add: list_all_iff)

lemma digit_not_minus: "n < 10 \<Longrightarrow> digit n \<noteq> CHR ''-''"
proof
  assume "n < 10" and "digit n = CHR ''-''"
  then have "of_char (CHR ''-'') = (48 + n :: nat)" using digit_value by metis
  then show False by simp
qed

lemma str_nat_value:
  "foldl (\<lambda>a c. 10 * a + (of_char c - 48)) 0 (str_nat n) = n"
proof (induction n rule: str_nat.induct)
  case (1 n)
  show ?case
  proof (cases "n < 10")
    case True
    then show ?thesis
      by (subst str_nat.simps) (simp add: digit_value)
  next
    case False
    have m: "n mod 10 < 10" by simp
    from False 1 have "foldl (\<lambda>a c. 10 * a + (of_char c - 48)) 0 (str_nat (n div 10)) = n div 10"
      by simp
    with False show ?thesis
      by (subst str_nat.simps) (simp add: digit_value [OF m])
  qed
qed

lemma str_nat_inj: "str_nat m = str_nat n \<Longrightarrow> m = n"
  by (metis str_nat_value)

lemma str_nat_head: "str_nat n \<noteq> [] \<and> hd (str_nat n) \<noteq> CHR ''-''"
proof (induction n rule: str_nat.induct)
  case (1 n)
  show ?case
  proof (cases "n < 10")
    case True
    then show ?thesis
      by (subst (1 2) str_nat.simps) (simp add: digit_not_minus)
  next
    case False
    with 1 have "str_nat (n div 10) \<noteq> [] \<and> hd (str_nat (n div 10)) \<noteq> CHR ''-''" by simp
    with False show ?thesis
      by (subst (1 2) str_nat.simps) simp
  qed
qed

lemma str_int_inj: "str_int a = str_int b \<Longrightarrow> a = b"
proof -
  assume e: "str_int a = str_int b"
  consider "a < 0" "b < 0" | "0 \<le> a" "0 \<le> b" | "a < 0" "0 \<le> b" | "0 \<le> a" "b < 0"
    by linarith
  then show ?thesis
  proof cases
    case 1
    with e have "str_nat (nat (- a)) = str_nat (nat (- b))" by (simp add: str_int_def)
    then have "nat (- a) = nat (- b)" by (rule str_nat_inj)
    with 1 show ?thesis by simp
  next
    case 2
    with e have "str_nat (nat a) = str_nat (nat b)" by (simp add: str_int_def)
    then have "nat a = nat b" by (rule str_nat_inj)
    with 2 show ?thesis by simp
  next
    case 3
    with e have "CHR ''-'' # str_nat (nat (- a)) = str_nat (nat b)" by (simp add: str_int_def)
    then have "hd (str_nat (nat b)) = CHR ''-''" by (metis list.sel(1))
    with str_nat_head [of "nat b"] show ?thesis by simp
  next
    case 4
    with e have "str_nat (nat a) = CHR ''-'' # str_nat (nat (- b))" by (simp add: str_int_def)
    then have "hd (str_nat (nat a)) = CHR ''-''" by (metis list.sel(1))
    with str_nat_head [of "nat a"] show ?thesis by simp
  qed
qed

section \<open>Track construction\<close>

lemma ytid_char_newline: "\<not> ytid_char (CHR 0x0A)"
  by (simp add: ytid_char_def)

lemma Track_init_identifier_present:
  "info_identifier tinfo = Some s \<Longrightarrow>
   \<exists>t. Track_init tid tinfo q = Inr t \<and>
       thumb t = (if re_match_ytid s
                  then Some (''https://img.youtube.com/vi/'' @ s @ ''/maxresdefault.jpg'')
                  else None)"
  by (auto simp: Track_init_def Let_def re_match_ytid_def)

lemma Track_init_identifier_absent:
  "info_identifier tinfo = None \<Longrightarrow> Track_init tid tinfo q = Inl TypeError"
  by (simp add: Track_init_def)

text \<open>
  The pattern ends in \<^verbatim>\<open>$\<close>, so an identifier of eleven characters of the class followed
  by a newline matches as well, and the newline goes into the thumbnail's URL.
\<close>

lemma Track_init_trailing_newline:
  "\<exists>t. Track_init tid (example_info\<lparr>info_identifier := Some (''dQw4w9WgXcQ'' @ [CHR 0x0A])\<rparr>) q = Inr t \<and>
       thumb t = Some (''https://img.youtube.com/vi/dQw4w9WgXcQ'' @ [CHR 0x0A] @ ''/maxresdefault.jpg'')"
  by (simp add: Track_init_def Let_def re_match_ytid_def ytid_char_def example_info_def)

text \<open>
  C9. The claim has a track built with no thumbnail when the info dict has no identifier.
  The constructor hands \<^verbatim>\<open>info.get('identifier')\<close>, which is \<^verbatim>\<open>None\<close> then, to
  \<^verbatim>\<open>re.match\<close>, and raises \<^verbatim>\<open>TypeError\<close>: no track is built.
\<close>

theorem Track_init_without_identifier:
  "Track_init ''QAAAjQIA'' (example_info\<lparr>info_identifier := None\<rparr>) None = Inl TypeError"
  by (simp add: Track_init_def example_info_def)

section \<open>Position\<close>

text \<open>
  C3. The position read is 0 when the player is not connected or has no track; the
  smaller of the last position and the track's duration when paused; otherwise the last
  position plus the time since the last update, replaced by 0 when that exceeds the
  duration and else capped at the duration. The timing fields and the duration hold
  numbers in the last two cases. \<open>position\<close> returns a value only: it has no world to
  change.
\<close>

theorem position_cases:
  "((\<not> is_connected p \<or> track p = None) \<longrightarrow> position now p = Inr 0) \<and>
   (is_connected p \<and> track p = Some t \<and> paused p \<and> last_position p = Some lp \<and> duration t = Some d
      \<longrightarrow> position now p = Inr (min lp d)) \<and>
   (is_connected p \<and> track p = Some t \<and> \<not> paused p \<and> last_update p = Some lu \<and>
    last_position p = Some lp \<and> duration t = Some d
      \<longrightarrow> position now p =
            Inr (if lp + (now - lu) > d then 0 else min (lp + (now - lu)) d))"
  by (auto simp: position_def is_playing_def is_connected_def is_paused_def py_min_def Let_def)

theorem position_cases_witness:
  "position 2000.75 (self example_world) = Inr 0 \<and>
   position 2000.75 ((self playing_world)\<lparr>paused := True\<rparr>) = Inr 500 \<and>
   position 2000.75 (self playing_world) = Inr 1500.75 \<and>
   position 20000 (self playing_world) = Inr 0"
proof -
  have a: "position 2000.75 (self example_world) = Inr 0"
    using position_cases [where p = "self example_world" and now = "2000.75"]
    by (simp add: example_world_def example_player_def is_connected_def)
  have b: "position 2000.75 ((self playing_world)\<lparr>paused := True\<rparr>) = Inr 500"
    using position_cases [where p = "(self playing_world)\<lparr>paused := True\<rparr>" and t = example_track
        and lp = 500 and d = 10000 and now = "2000.75"]
    by (simp add: playing_world_def example_world_def example_player_def example_track_def
        is_connected_def)
  have c: "position 2000.75 (self playing_world) = Inr 1500.75"
    using position_cases [where p = "self playing_world" and t = example_track
        and lp = 500 and d = 10000 and lu = 1000 and now = "2000.75"]
    by (simp add: playing_world_def example_world_def example_player_def example_track_def
        is_connected_def)
  have d: "position 20000 (self playing_world) = Inr 0"
    using position_cases [where p = "self playing_world" and t = example_track
        and lp = 500 and d = 10000 and lu = 1000 and now = 20000]
    by (simp add: playing_world_def example_world_def example_player_def example_track_def
        is_connected_def)
  from a b c d show ?thesis by simp
qed

section \<open>play\<close>

text \<open>
  C2. When \<open>replace\<close> is false and the player is playing (connected, with a track),
  \<open>play\<close> returns at once: nothing is sent and the world, so the track, the paused flag
  and the three timing fields, is as before. Otherwise the three timing fields become 0,
  \<open>paused\<close> becomes false, the track becomes \<open>t\<close>, and exactly one call of
  \<^verbatim>\<open>_send\<close> is made, on the player's node: a play command with \<^verbatim>\<open>noReplace\<close> the negation of
  \<open>replace\<close>, \<^verbatim>\<open>startTime\<close> the decimal string of \<open>start\<close>, and \<^verbatim>\<open>endTime\<close> (the decimal
  string of \<open>endt\<close>) present exactly when \<open>endt\<close> is positive. The player has a channel,
  from which the guild id of the command is read.
\<close>

theorem play_behaviour:
  "(\<not> replace \<and> is_connected (self w) \<and> track (self w) \<noteq> None
      \<longrightarrow> play raises t replace start endt w = (Returned, w)) \<and>
   (\<not> (\<not> replace \<and> is_connected (self w) \<and> track (self w) \<noteq> None) \<and> channel (self w) = Some c
      \<longrightarrow> snd (play raises t replace start endt w) =
            w\<lparr>self := (self w)\<lparr>last_update := Some 0, last_position := Some 0,
                                 position_timestamp := Some 0, paused := False,
                                 track := Some t\<rparr>,
              sent := sent w @
                [(node (self w),
                  [(''op'', JStr ''play''),
                   (''guildId'', JStr (str_int (guild_id (channel_guild c)))),
                   (''track'', JStr (track_id t)),
                   (''noReplace'', JBool (\<not> replace)),
                   (''startTime'', JStr (str_int start))]
                  @ (if endt > 0 then [(''endTime'', JStr (str_int endt))] else []))]\<rparr>)"
  by (auto simp: play_def Let_def is_playing_def is_connected_def snd_and_then str_track_def
      split: option.splits)

theorem play_behaviour_witness:
  "play reliable example_track False 0 0 playing_world = (Returned, playing_world) \<and>
   sent (snd (play reliable example_track True 0 5000 playing_world)) =
     [(1, [(''op'', JStr ''play''), (''guildId'', JStr ''42''), (''track'', JStr ''QAAAjQIA''),
           (''noReplace'', JBool False), (''startTime'', JStr ''0''),
           (''endTime'', JStr ''5000'')])] \<and>
   last_update (self (snd (play reliable example_track True 0 5000 playing_world))) = Some 0 \<and>
   last_position (self (snd (play reliable example_track True 0 5000 playing_world))) = Some 0 \<and>
   position_timestamp (self (snd (play reliable example_track True 0 5000 playing_world))) = Some 0 \<and>
   sent (snd (play reliable example_track False 0 0 example_world)) =
     [(1, [(''op'', JStr ''play''), (''guildId'', JStr ''42''), (''track'', JStr ''QAAAjQIA''),
           (''noReplace'', JBool True), (''startTime'', JStr ''0'')])] \<and>
   track (self (snd (play reliable example_track False 0 0 example_world))) = Some example_track \<and>
   paused (self (snd (play reliable example_track False 0 0 example_world))) = False"
proof -
  have a: "play reliable example_track False 0 0 playing_world = (Returned, playing_world)"
    using play_behaviour [where w = playing_world and replace = False and raises = reliable
        and t = example_track and start = 0 and endt = 0]
    by (simp add: playing_world_simps)
  have b: "snd (play reliable example_track True 0 5000 playing_world) =
             playing_world\<lparr>self := (self playing_world)\<lparr>last_update := Some 0,
                 last_position := Some 0, position_timestamp := Some 0, paused := False,
                 track := Some example_track\<rparr>,
               sent := [(1, [(''op'', JStr ''play''), (''guildId'', JStr ''42''),
                             (''track'', JStr ''QAAAjQIA''), (''noReplace'', JBool False),
                             (''startTime'', JStr ''0''), (''endTime'', JStr ''5000'')])]\<rparr>"
    using play_behaviour [where w = playing_world and replace = True and raises = reliable
        and t = example_track and start = 0 and endt = 5000 and c = example_channel]
    by (simp add: playing_world_simps example_world_simps example_track_simps str_int_examples)
  have c: "snd (play reliable example_track False 0 0 example_world) =
             example_world\<lparr>self := (self example_world)\<lparr>last_update := Some 0,
                 last_position := Some 0, position_timestamp := Some 0, paused := False,
                 track := Some example_track\<rparr>,
               sent := [(1, [(''op'', JStr ''play''), (''guildId'', JStr ''42''),
                             (''track'', JStr ''QAAAjQIA''), (''noReplace'', JBool True),
                             (''startTime'', JStr ''0'')])]\<rparr>"
    using play_behaviour [where w = example_world and replace = False and raises = reliable
        and t = example_track and start = 0 and endt = 0 and c = example_channel]
    by (simp add: example_world_simps example_track_simps str_int_examples)
  show ?thesis
    unfolding b c using a by simp
qed

section \<open>set_volume, set_pause and stop\<close>

text \<open>Only \<open>set_volume\<close> assigns the volume.\<close>

lemma volume_and_then:
  "volume (self (snd r)) = v \<Longrightarrow> (\<And>w. volume (self w) = v \<Longrightarrow> volume (self (snd (f w))) = v)
   \<Longrightarrow> volume (self (snd (and_then r f))) = v"
  by (cases r) (auto simp: and_then_def split: outcome.splits)

lemma volume_dispatch [simp]: "volume (self (snd (dispatch_voice_update raises w))) = volume (self w)"
  by (simp add: dispatch_voice_update_def split: option.splits)

lemma volume_replay_track [simp]: "volume (self (snd (replay_track raises n1 n2 w))) = volume (self w)"
  by (auto simp: replay_track_def send_def Let_def split: option.splits sum.splits)

lemma volume_replay_volume [simp]: "volume (self (snd (replay_volume raises w))) = volume (self w)"
  by (auto simp: replay_volume_def split: option.splits)

lemma volume_replay [simp]: "volume (self (snd (change_node_replay raises n1 n2 w))) = volume (self w)"
  unfolding change_node_replay_def
  by (intro volume_and_then) auto

lemma volume_select [simp]: "volume (self (snd (change_node_select sel arg w))) = volume (self w)"
  by (auto simp: change_node_select_def Let_def split: option.splits)

lemma volume_detach [simp]: "volume (self (snd (change_node_detach raises w))) = volume (self w)"
  by (auto simp: change_node_detach_def Let_def split: option.splits)

lemma volume_attach [simp]: "volume (self (snd (change_node_attach n w))) = volume (self w)"
  by (auto simp: change_node_attach_def Let_def split: option.splits)

lemma volume_change_node [simp]:
  "volume (self (snd (change_node raises sel n1 n2 arg w))) = volume (self w)"
proof (cases "change_node_select sel arg w")
  case (Pair r w1)
  have v1: "volume (self w1) = volume (self w)"
    using volume_select [of sel arg w] Pair by simp
  show ?thesis
  proof (cases r)
    case (Inl e)
    with Pair v1 show ?thesis by (simp add: change_node_def)
  next
    case (Inr n)
    have "volume (self (snd (and_then (and_then (change_node_detach raises w1) (change_node_attach n))
             (change_node_replay raises n1 n2)))) = volume (self w)"
      by (intro volume_and_then) (simp_all add: v1)
    with Pair Inr show ?thesis by (simp add: change_node_def)
  qed
qed

lemma volume_step:
  "volume (self (snd (step raises sel c w))) =
     (case c of SetVolume v \<Rightarrow> max (min v 1000) 0 | _ \<Rightarrow> volume (self w))"
proof (cases c)
  case (Play t replace start endt)
  then show ?thesis
    by (auto simp: play_def Let_def str_track_def snd_and_then split: option.splits)
next
  case Stop
  then show ?thesis
    by (auto simp: stop_def Let_def and_then_def send_def split: option.splits sum.splits)
next
  case (SetPause b)
  then show ?thesis
    by (auto simp: set_pause_def and_then_def send_def split: option.splits)
next
  case Pause
  then show ?thesis
    by (auto simp: pause_def set_pause_def and_then_def send_def split: option.splits)
next
  case Resume
  then show ?thesis
    by (auto simp: resume_def set_pause_def and_then_def send_def split: option.splits)
next
  case (SetVolume v)
  then show ?thesis
    by (auto simp: set_volume_def Let_def split: option.splits)
next
  case (Seek pos)
  then show ?thesis
    by (auto simp: seek_def split: option.splits)
next
  case (ChangeNode n1 n2 arg)
  then show ?thesis by simp
next
  case (UpdateState now st)
  then show ?thesis by (simp add: update_state_def split: option.splits)
next
  case (OnVoiceServerUpdate data)
  then show ?thesis by (simp add: on_voice_server_update_def)
next
  case (OnVoiceStateUpdate sid cid)
  then show ?thesis
    by (auto simp: on_voice_state_update_def Let_def split: option.splits)
next
  case (Hook ev)
  then show ?thesis by (simp add: hook_def)
next
  case (Connect g)
  then show ?thesis by (auto simp: connect_def split: option.splits)
next
  case (Disconnect g)
  then show ?thesis by (auto simp: disconnect_def split: option.splits)
qed

lemma volume_step_range:
  "0 \<le> volume (self w) \<and> volume (self w) \<le> 1000 \<Longrightarrow>
   0 \<le> volume (self (snd (step raises sel c w))) \<and> volume (self (snd (step raises sel c w))) \<le> 1000"
  by (simp add: volume_step split: call.splits)

lemma volume_run_range:
  "0 \<le> volume (self w) \<and> volume (self w) \<le> 1000 \<Longrightarrow>
   0 \<le> volume (self (run cs w)) \<and> volume (self (run cs w)) \<le> 1000"
proof (induction cs arbitrary: w)
  case Nil
  then show ?case by simp
next
  case (Cons x cs)
  obtain raises sel c where x: "x = (raises, sel, c)" by (cases x) auto
  show ?case
    unfolding x run.simps
    by (rule Cons.IH) (rule volume_step_range [OF Cons.prems])
qed

lemma Player_init_volume: "Player_init i ch best ns = Inr w0 \<Longrightarrow> volume (self w0) = 100"
  by (auto simp: Player_init_def split: option.splits)

text \<open>
  C8. After \<open>set_volume v\<close> the stored volume is \<open>v\<close> clamped to 0..1000, whatever the
  sign or size of \<open>v\<close> and whether or not the send raised, and the volume command handed
  to \<^verbatim>\<open>_send\<close> carries that clamped value. So from the world the constructor builds
  (volume 100), the volume is within 0..1000 after every sequence of calls.
\<close>

theorem set_volume_clamps:
  "volume (self (snd (set_volume raises v w))) = max (min v 1000) 0 \<and>
   (channel (self w) = Some c \<longrightarrow>
      sent (snd (set_volume raises v w)) =
        sent w @ [(node (self w),
                   [(''op'', JStr ''volume''),
                    (''guildId'', JStr (str_int (guild_id (channel_guild c)))),
                    (''volume'', JInt (max (min v 1000) 0))])]) \<and>
   (Player_init i ch best ns = Inr w0 \<longrightarrow>
      0 \<le> volume (self (run cs w0)) \<and> volume (self (run cs w0)) \<le> 1000)"
proof (intro conjI impI)
  show "volume (self (snd (set_volume raises v w))) = max (min v 1000) 0"
    by (simp add: set_volume_def Let_def split: option.splits)
next
  assume "channel (self w) = Some c"
  then show "sent (snd (set_volume raises v w)) =
        sent w @ [(node (self w),
                   [(''op'', JStr ''volume''),
                    (''guildId'', JStr (str_int (guild_id (channel_guild c)))),
                    (''volume'', JInt (max (min v 1000) 0))])]"
    by (simp add: set_volume_def Let_def)
next
  assume "Player_init i ch best ns = Inr w0"
  then have "volume (self w0) = 100" by (rule Player_init_volume)
  then have r: "0 \<le> volume (self w0) \<and> volume (self w0) \<le> 1000" by simp
  from volume_run_range [OF r] show "0 \<le> volume (self (run cs w0))" by simp
  from volume_run_range [OF r] show "volume (self (run cs w0)) \<le> 1000" by simp
qed

theorem set_volume_clamps_witness:
  "volume (self (snd (set_volume reliable 1500 example_world))) = 1000 \<and>
   volume (self (snd (set_volume reliable (- 5) example_world))) = 0 \<and>
   sent (snd (set_volume reliable 1500 example_world)) =
     [(1, [(''op'', JStr ''volume''), (''guildId'', JStr ''42''), (''volume'', JInt 1000)])] \<and>
   0 \<le> volume (self (run [(reliable, (\<lambda>ns r s. None), SetVolume 1500),
                            (node1_down, (\<lambda>ns r s. None), SetVolume (- 5))] example_world)) \<and>
   volume (self (run [(reliable, (\<lambda>ns r s. None), SetVolume 1500),
                      (node1_down, (\<lambda>ns r s. None), SetVolume (- 5))] example_world)) \<le> 1000"
proof -
  have a: "volume (self (snd (set_volume reliable (- 5) example_world))) = 0"
    using set_volume_clamps [where v = "- 5" and w = example_world and raises = reliable]
    by simp
  have b: "channel (self example_world) = Some example_channel"
    by (simp add: example_world_def example_player_def)
  have c: "guild_id (channel_guild example_channel) = 42" "node (self example_world) = 1"
    "sent example_world = []"
    by (simp_all add: example_world_def example_player_def example_channel_def example_guild_def
      is_connected_def)
  show ?thesis
    using a b c example_world_built str_int_examples
      set_volume_clamps [where v = 1500 and w = example_world and raises = reliable
        and c = example_channel and i = 7 and ch = example_channel and best = "Some 1"
        and ns = example_nodes and ?w0.0 = example_world
        and cs = "[(reliable, (\<lambda>ns r s. None), SetVolume 1500),
                   (node1_down, (\<lambda>ns r s. None), SetVolume (- 5))]"]
    by simp
qed

text \<open>
  C10. \<open>set_volume\<close> stores the clamped volume before it sends: when the send raises,
  the stored volume is the clamped value all the same. \<open>set_pause\<close> and \<open>stop\<close> send
  first: when the send raises, \<open>paused\<close> and the track are what they were; when it
  returns, \<open>paused\<close> is the flag and the track is cleared (the debug line of \<open>stop\<close>
  must be able to print the track).
\<close>

theorem mirror_update_order:
  "channel (self w) = Some c \<Longrightarrow>
   (raises (node (self w))
       [(''op'', JStr ''volume''),
        (''guildId'', JStr (str_int (guild_id (channel_guild c)))),
        (''volume'', JInt (max (min v 1000) 0))]
      \<longrightarrow> fst (set_volume raises v w) = Raised SendError \<and>
          volume (self (snd (set_volume raises v w))) = max (min v 1000) 0) \<and>
   (raises (node (self w))
       [(''op'', JStr ''pause''),
        (''guildId'', JStr (str_int (guild_id (channel_guild c)))),
        (''pause'', JBool b)]
      \<longrightarrow> fst (set_pause raises b w) = Raised SendError \<and>
          paused (self (snd (set_pause raises b w))) = paused (self w)) \<and>
   (\<not> raises (node (self w))
       [(''op'', JStr ''pause''),
        (''guildId'', JStr (str_int (guild_id (channel_guild c)))),
        (''pause'', JBool b)]
      \<longrightarrow> fst (set_pause raises b w) = Returned \<and>
          paused (self (snd (set_pause raises b w))) = b) \<and>
   (raises (node (self w))
       [(''op'', JStr ''stop''),
        (''guildId'', JStr (str_int (guild_id (channel_guild c))))]
      \<longrightarrow> fst (stop raises w) = Raised SendError \<and>
          track (self (snd (stop raises w))) = track (self w)) \<and>
   (\<not> raises (node (self w))
       [(''op'', JStr ''stop''),
        (''guildId'', JStr (str_int (guild_id (channel_guild c))))] \<and>
    str_track (track (self w)) \<noteq> Inl TypeError
      \<longrightarrow> fst (stop raises w) = Returned \<and>
          track (self (snd (stop raises w))) = None)"
  by (auto simp: set_volume_def set_pause_def stop_def Let_def fst_and_then snd_and_then
      str_track_def split: option.splits sum.splits)

theorem mirror_update_order_witness:
  "fst (set_volume node1_down 1500 example_world) = Raised SendError \<and>
   volume (self (snd (set_volume node1_down 1500 example_world))) = 1000 \<and>
   fst (set_pause node1_down True playing_world) = Raised SendError \<and>
   paused (self (snd (set_pause node1_down True playing_world))) = False \<and>
   fst (stop node1_down playing_world) = Raised SendError \<and>
   track (self (snd (stop node1_down playing_world))) = Some example_track \<and>
   fst (set_pause reliable True playing_world) = Returned \<and>
   paused (self (snd (set_pause reliable True playing_world))) = True \<and>
   fst (stop reliable playing_world) = Returned \<and>
   track (self (snd (stop reliable playing_world))) = None"
proof -
  have a: "fst (set_volume node1_down 1500 example_world) = Raised SendError \<and>
           volume (self (snd (set_volume node1_down 1500 example_world))) = 1000"
    using mirror_update_order [where w = example_world and c = example_channel
        and raises = node1_down and v = 1500]
    by (simp add: example_world_simps node1_down_def)
  have b: "fst (set_pause node1_down True playing_world) = Raised SendError \<and>
           paused (self (snd (set_pause node1_down True playing_world))) = False \<and>
           fst (stop node1_down playing_world) = Raised SendError \<and>
           track (self (snd (stop node1_down playing_world))) = Some example_track"
    using mirror_update_order [where w = playing_world and c = example_channel
        and raises = node1_down and b = True]
    by (simp add: playing_world_simps node1_down_def)
  have c: "fst (set_pause reliable True playing_world) = Returned \<and>
           paused (self (snd (set_pause reliable True playing_world))) = True \<and>
           fst (stop reliable playing_world) = Returned \<and>
           track (self (snd (stop reliable playing_world))) = None"
    using mirror_update_order [where w = playing_world and c = example_channel
        and raises = reliable and b = True]
    by (simp add: playing_world_simps reliable_def str_track_def example_track_simps)
  from a b c show ?thesis by simp
qed

section \<open>change_node\<close>

subsection \<open>The four parts\<close>

lemma and_then_eq_Returned:
  "and_then r f = (Returned, w') \<longleftrightarrow> (\<exists>w1. r = (Returned, w1) \<and> f w1 = (Returned, w'))"
  by (cases r) (auto simp: and_then_def split: outcome.splits)

lemma change_node_Returned:
  "change_node raises sel now1 now2 arg w = (Returned, w') \<longleftrightarrow>
     (\<exists>n w1 w2 w3.
        change_node_select sel arg w = (Inr n, w1) \<and>
        change_node_detach raises w1 = (Returned, w2) \<and>
        change_node_attach n w2 = (Returned, w3) \<and>
        change_node_replay raises now1 now2 w3 = (Returned, w'))"
  by (auto simp: change_node_def and_then_eq_Returned split: prod.splits sum.splits)

lemma select_Inr:
  assumes "change_node_select sel arg w = (Inr n, w1)"
  shows "self w1 = self w" and "sent w1 = sent w"
    and "players (nodes w1 m) = players (nodes w m)"
    and "arg = Some k \<Longrightarrow> n = k \<and> n \<noteq> node (self w)"
    and "arg = None \<Longrightarrow>
           sel ((nodes w)(node (self w) := close (nodes w (node (self w)))))
               (region (nodes w (node (self w)))) (shard_id (nodes w (node (self w)))) = Some n"
  using assms
  by (auto simp: change_node_select_def Let_def close_def open_node_def
      split: option.splits if_splits)

lemma select_differs:
  assumes "change_node_select sel arg w = (Inr n, w1)"
    and "arg = None \<longrightarrow> (\<forall>ns r s k. sel ns r s = Some k \<longrightarrow> available (ns k))"
  shows "n \<noteq> node (self w)"
proof (cases arg)
  case None
  from select_Inr(5) [OF assms(1) None] assms(2) None
  have "available (((nodes w)(node (self w) := close (nodes w (node (self w))))) n)"
    by blast
  then show ?thesis by (auto simp: close_def)
next
  case (Some k)
  from select_Inr(4) [OF assms(1) Some] show ?thesis by simp
qed

lemma detach_Returned:
  assumes "change_node_detach raises w = (Returned, w2)" and "channel (self w) = Some c"
  shows "self w2 = self w"
    and "sent w2 = sent w @ [(node (self w),
            [(''op'', JStr ''destroy''), (''guildId'', JStr (str_int (guild_id (channel_guild c))))])]"
    and "nodes w2 = (nodes w)(node (self w) := (nodes w (node (self w)))
            \<lparr>players := (players (nodes w (node (self w))))(guild_id (channel_guild c) := None)\<rparr>)"
  using assms
  by (auto simp: change_node_detach_def Let_def send_def split: option.splits if_splits)

lemma detach_channel:
  "change_node_detach raises w = (Returned, w2) \<Longrightarrow> \<exists>c. channel (self w) = Some c"
  by (auto simp: change_node_detach_def Let_def split: option.splits)

lemma attach_Returned:
  assumes "change_node_attach n w = (Returned, w3)" and "channel (self w) = Some c"
  shows "self w3 = (self w)\<lparr>node := n\<rparr>" and "sent w3 = sent w"
    and "nodes w3 = (nodes w)(n := (nodes w n)
            \<lparr>players := (players (nodes w n))(guild_id (channel_guild c) \<mapsto> ident (self w))\<rparr>)"
  using assms
  by (auto simp: change_node_attach_def Let_def split: option.splits)

lemma position_node [simp]: "position now (p\<lparr>node := n\<rparr>) = position now p"
  by (simp add: position_def is_playing_def is_connected_def is_paused_def split: option.splits)

lemma dispatch_Returned:
  assumes "dispatch_voice_update raises w = (Returned, w')" and "channel (self w) = Some c"
  shows "w' = w\<lparr>sent := sent w @
           (if {''sessionId'', ''event''} = set (map fst (voice_state (self w)))
            then [(node (self w),
                   [(''op'', JStr ''voiceUpdate''),
                    (''guildId'', JStr (str_int (guild_id (channel_guild c))))]
                   @ voice_state (self w))]
            else [])\<rparr>"
  using assms
  by (auto simp: dispatch_voice_update_def send_def split: if_splits)

lemma replay_track_Returned:
  assumes "replay_track raises now1 now2 w = (Returned, w')"
    and "track (self w) = Some t" and "channel (self w) = Some c"
  shows "\<exists>pos. position now1 (self w) = Inr pos \<and>
           w' = w\<lparr>self := (self w)\<lparr>last_update := Some now2\<rparr>,
                  sent := sent w @
                    [(node (self w),
                      [(''op'', JStr ''play''),
                       (''guildId'', JStr (str_int (guild_id (channel_guild c)))),
                       (''track'', JStr (track_id t)),
                       (''startTime'', JInt (py_int pos))])] @
                    (if paused (self w)
                     then [(node (self w),
                            [(''op'', JStr ''pause''),
                             (''guildId'', JStr (str_int (guild_id (channel_guild c)))),
                             (''pause'', JBool (paused (self w)))])]
                     else [])\<rparr>"
  using assms
  by (auto simp: replay_track_def send_def and_then_def Let_def is_paused_def
      split: sum.splits if_splits)

lemma replay_volume_Returned:
  assumes "replay_volume raises w = (Returned, w')" and "channel (self w) = Some c"
  shows "w' = w\<lparr>sent := sent w @
           (if volume (self w) \<noteq> 100
            then [(node (self w),
                   [(''op'', JStr ''volume''),
                    (''guildId'', JStr (str_int (guild_id (channel_guild c)))),
                    (''volume'', JInt (volume (self w)))])]
            else [])\<rparr>"
  using assms
  by (auto simp: replay_volume_def send_def split: if_splits)

subsection \<open>Refusals\<close>

text \<open>
  C5. \<open>change_node\<close> with the player's current node raises
  \<^verbatim>\<open>WavelinkException('Player is already on this node.')\<close> (the spec's
  AlreadyOnNodeError) and leaves the whole world as it was. \<open>change_node\<close> without a
  node, when the selector finds none, raises
  \<^verbatim>\<open>WavelinkException('No Nodes available for changeover.')\<close> (the spec's
  NoNodeAvailableError); the player, so its node, and the calls of \<^verbatim>\<open>_send\<close> are as before,
  and the current node has been closed and opened again.
\<close>

theorem change_node_refusals:
  "change_node raises sel now1 now2 (Some (node (self w))) w =
     (Raised (WavelinkException ''Player is already on this node.''), w) \<and>
   (sel ((nodes w)(node (self w) := close (nodes w (node (self w)))))
        (region (nodes w (node (self w)))) (shard_id (nodes w (node (self w)))) = None
      \<longrightarrow> change_node raises sel now1 now2 None w =
            (Raised (WavelinkException ''No Nodes available for changeover.''),
             w\<lparr>nodes := (nodes w)(node (self w) := open_node (nodes w (node (self w))))\<rparr>))"
  by (simp add: change_node_def change_node_select_def Let_def close_def open_node_def)

theorem change_node_refusals_witness:
  "change_node reliable pick_node2 0 0 (Some 1) example_world =
     (Raised (WavelinkException ''Player is already on this node.''), example_world) \<and>
   fst (change_node reliable (\<lambda>ns r s. None) 0 0 None example_world) =
     Raised (WavelinkException ''No Nodes available for changeover.'') \<and>
   sent (snd (change_node reliable (\<lambda>ns r s. None) 0 0 None example_world)) = [] \<and>
   node (self (snd (change_node reliable (\<lambda>ns r s. None) 0 0 None example_world))) = 1"
proof -
  have a: "change_node reliable pick_node2 0 0 (Some 1) example_world =
     (Raised (WavelinkException ''Player is already on this node.''), example_world)"
    using change_node_refusals [where w = example_world and raises = reliable
        and sel = pick_node2 and ?now1.0 = 0 and ?now2.0 = 0]
    by (simp add: example_world_simps)
  show ?thesis
    using a change_node_refusals [where w = example_world and raises = reliable
        and sel = "\<lambda>ns r s. None" and ?now1.0 = 0 and ?now2.0 = 0]
    by (simp add: example_world_simps)
qed

subsection \<open>The replay\<close>

text \<open>
  C4, amended. A \<open>change_node\<close> that returns, for a player with a track, has made these
  calls of \<^verbatim>\<open>_send\<close> in this order: \<^verbatim>\<open>destroy\<close> on the old node; on the new node the merged
  voice update, when both handshake fragments are stored; then a play command whose
  \<^verbatim>\<open>startTime\<close> is the position read at the changeover truncated toward zero (Python's
  \<^verbatim>\<open>int\<close>, not a rounding to the nearest integer); then a pause command carrying the paused
  flag, exactly when the player is paused; then a volume command, exactly when the volume
  is not 100. Afterwards \<open>last_update\<close> is the clock reading taken after the play command.
\<close>

theorem change_node_replays_state:
  assumes ok: "change_node raises sel now1 now2 arg w = (Returned, w')"
    and tr: "track (self w) = Some t"
  shows "\<exists>c pos. channel (self w) = Some c \<and> position now1 (self w) = Inr pos \<and>
           sent w' =
             sent w @
             [(node (self w),
               [(''op'', JStr ''destroy''),
                (''guildId'', JStr (str_int (guild_id (channel_guild c))))])] @
             (if {''sessionId'', ''event''} = set (map fst (voice_state (self w)))
              then [(node (self w'),
                     [(''op'', JStr ''voiceUpdate''),
                      (''guildId'', JStr (str_int (guild_id (channel_guild c))))]
                     @ voice_state (self w))]
              else []) @
             [(node (self w'),
               [(''op'', JStr ''play''),
                (''guildId'', JStr (str_int (guild_id (channel_guild c)))),
                (''track'', JStr (track_id t)),
                (''startTime'', JInt (if 0 \<le> pos then \<lfloor>pos\<rfloor> else \<lceil>pos\<rceil>))])] @
             (if paused (self w)
              then [(node (self w'),
                     [(''op'', JStr ''pause''),
                      (''guildId'', JStr (str_int (guild_id (channel_guild c)))),
                      (''pause'', JBool (paused (self w)))])]
              else []) @
             (if volume (self w) \<noteq> 100
              then [(node (self w'),
                     [(''op'', JStr ''volume''),
                      (''guildId'', JStr (str_int (guild_id (channel_guild c)))),
                      (''volume'', JInt (volume (self w)))])]
              else []) \<and>
           last_update (self w') = Some now2"
proof -
  from ok obtain n w1 w2 w3 where
    sel: "change_node_select sel arg w = (Inr n, w1)" and
    det: "change_node_detach raises w1 = (Returned, w2)" and
    att: "change_node_attach n w2 = (Returned, w3)" and
    rep: "change_node_replay raises now1 now2 w3 = (Returned, w')"
    unfolding change_node_Returned by blast
  have s1: "self w1 = self w" "sent w1 = sent w"
    using select_Inr [OF sel] by simp_all
  from detach_channel [OF det] s1 obtain c where ch: "channel (self w) = Some c" by auto
  have ch1: "channel (self w1) = Some c" using ch s1 by simp
  have s2: "self w2 = self w" "sent w2 = sent w @ [(node (self w),
            [(''op'', JStr ''destroy''), (''guildId'', JStr (str_int (guild_id (channel_guild c))))])]"
    using detach_Returned(1,2) [OF det ch1] s1 by simp_all
  have ch2: "channel (self w2) = Some c" using ch s2 by simp
  have s3: "self w3 = (self w)\<lparr>node := n\<rparr>" "sent w3 = sent w2"
    using attach_Returned(1,2) [OF att ch2] s2 by simp_all
  have ch3: "channel (self w3) = Some c" using ch s3 by simp
  from rep obtain wa wb where
    a: "(if voice_state (self w3) \<noteq> [] then dispatch_voice_update raises w3 else (Returned, w3))
          = (Returned, wa)" and
    b: "replay_track raises now1 now2 wa = (Returned, wb)" and
    c: "replay_volume raises wb = (Returned, w')"
    unfolding change_node_replay_def and_then_eq_Returned by blast
  have wa: "wa = w3\<lparr>sent := sent w3 @
           (if {''sessionId'', ''event''} = set (map fst (voice_state (self w3)))
            then [(node (self w3),
                   [(''op'', JStr ''voiceUpdate''),
                    (''guildId'', JStr (str_int (guild_id (channel_guild c))))]
                   @ voice_state (self w3))]
            else [])\<rparr>"
  proof (cases "voice_state (self w3) = []")
    case True
    with a show ?thesis by auto
  next
    case False
    with a have "dispatch_voice_update raises w3 = (Returned, wa)" by simp
    from dispatch_Returned [OF this ch3] show ?thesis .
  qed
  have sa: "self wa = (self w)\<lparr>node := n\<rparr>" using wa s3 by simp
  have tra: "track (self wa) = Some t" and cha: "channel (self wa) = Some c"
    using sa tr ch by simp_all
  from replay_track_Returned [OF b tra cha] obtain pos where
    pos: "position now1 (self wa) = Inr pos" and
    wb: "wb = wa\<lparr>self := (self wa)\<lparr>last_update := Some now2\<rparr>,
                  sent := sent wa @
                    [(node (self wa),
                      [(''op'', JStr ''play''),
                       (''guildId'', JStr (str_int (guild_id (channel_guild c)))),
                       (''track'', JStr (track_id t)),
                       (''startTime'', JInt (py_int pos))])] @
                    (if paused (self wa)
                     then [(node (self wa),
                            [(''op'', JStr ''pause''),
                             (''guildId'', JStr (str_int (guild_id (channel_guild c)))),
                             (''pause'', JBool (paused (self wa)))])]
                     else [])\<rparr>"
    by blast
  have chb: "channel (self wb) = Some c" using wb cha by simp
  note w' = replay_volume_Returned [OF c chb]
  have sw': "self w' = (self w)\<lparr>node := n, last_update := Some now2\<rparr>"
    using w' wb sa by simp
  have p: "position now1 (self w) = Inr pos" using pos sa by simp
  have n: "node (self w') = n" using sw' by simp
  have "sent w' = sent wb @
           (if volume (self w) \<noteq> 100
            then [(n,
                   [(''op'', JStr ''volume''),
                    (''guildId'', JStr (str_int (guild_id (channel_guild c)))),
                    (''volume'', JInt (volume (self w)))])]
            else [])"
    using w' wb sa by simp
  moreover have "sent wb = sent wa @
                    [(n,
                      [(''op'', JStr ''play''),
                       (''guildId'', JStr (str_int (guild_id (channel_guild c)))),
                       (''track'', JStr (track_id t)),
                       (''startTime'', JInt (py_int pos))])] @
                    (if paused (self w)
                     then [(n,
                            [(''op'', JStr ''pause''),
                             (''guildId'', JStr (str_int (guild_id (channel_guild c)))),
                             (''pause'', JBool (paused (self w)))])]
                     else [])"
    using wb sa by simp
  moreover have "sent wa = sent w3 @
           (if {''sessionId'', ''event''} = set (map fst (voice_state (self w)))
            then [(n,
                   [(''op'', JStr ''voiceUpdate''),
                    (''guildId'', JStr (str_int (guild_id (channel_guild c))))]
                   @ voice_state (self w))]
            else [])"
    using wa s3 by simp
  ultimately have "sent w' =
             sent w @
             [(node (self w),
               [(''op'', JStr ''destroy''),
                (''guildId'', JStr (str_int (guild_id (channel_guild c))))])] @
             (if {''sessionId'', ''event''} = set (map fst (voice_state (self w)))
              then [(n,
                     [(''op'', JStr ''voiceUpdate''),
                      (''guildId'', JStr (str_int (guild_id (channel_guild c))))]
                     @ voice_state (self w))]
              else []) @
             [(n,
               [(''op'', JStr ''play''),
                (''guildId'', JStr (str_int (guild_id (channel_guild c)))),
                (''track'', JStr (track_id t)),
                (''startTime'', JInt (py_int pos))])] @
             (if paused (self w)
              then [(n,
                     [(''op'', JStr ''pause''),
                      (''guildId'', JStr (str_int (guild_id (channel_guild c)))),
                      (''pause'', JBool (paused (self w)))])]
              else []) @
             (if volume (self w) \<noteq> 100
              then [(n,
                     [(''op'', JStr ''volume''),
                      (''guildId'', JStr (str_int (guild_id (channel_guild c)))),
                      (''volume'', JInt (volume (self w)))])]
              else [])"
    using s3 s2 by simp
  moreover have "last_update (self w') = Some now2" using sw' by simp
  ultimately show ?thesis
    using p ch unfolding n py_int_def by blast
qed

text \<open>Unfolding \<open>change_node\<close> and the example data, for the closed instances.\<close>

lemmas change_node_eval =
  change_node_def change_node_select_def change_node_detach_def change_node_attach_def
  change_node_replay_def replay_track_def replay_volume_def dispatch_voice_update_def
  send_def position_def py_min_def py_int_def is_playing_def is_connected_def is_paused_def
  close_def open_node_def Let_def

lemmas example_defs =
  example_world_def playing_world_def paused_world_def example_player_def example_channel_def
  example_guild_def example_nodes_def example_track_def reliable_def node1_down_def
  pick_node2_def

text \<open>
  C4 as stated has \<^verbatim>\<open>startTime\<close> equal to the rounded position. With the last position
  500 reported at 1000 and the clock at 2000.75, the position is 1500.75, which rounds to
  1501; the play command sent to the new node carries 1500.
\<close>

theorem change_node_start_time_truncated:
  "position 2000.75 (self playing_world) = Inr 1500.75 \<and>
   round (1500.75 :: real) = 1501 \<and>
   sent (snd (change_node reliable pick_node2 2000.75 2001 (Some 2) playing_world)) =
     [(1, [(''op'', JStr ''destroy''), (''guildId'', JStr ''42'')]),
      (2, [(''op'', JStr ''play''), (''guildId'', JStr ''42''), (''track'', JStr ''QAAAjQIA''),
           (''startTime'', JInt 1500)])]"
proof (intro conjI)
  show "position 2000.75 (self playing_world) = Inr 1500.75"
    by (simp add: change_node_eval example_defs)
  show "round (1500.75 :: real) = 1501"
    by (simp add: round_def)
  show "sent (snd (change_node reliable pick_node2 2000.75 2001 (Some 2) playing_world)) =
     [(1, [(''op'', JStr ''destroy''), (''guildId'', JStr ''42'')]),
      (2, [(''op'', JStr ''play''), (''guildId'', JStr ''42''), (''track'', JStr ''QAAAjQIA''),
           (''startTime'', JInt 1500)])]"
    using str_int_examples by (simp add: change_node_eval example_defs)
qed

lemma paused_world_change:
  "change_node reliable pick_node2 2000.75 2001 None paused_world =
     (Returned, snd (change_node reliable pick_node2 2000.75 2001 None paused_world))"
proof -
  have "fst (change_node reliable pick_node2 2000.75 2001 None paused_world) = Returned"
    by (simp add: change_node_eval example_defs)
  then show ?thesis by (metis prod.collapse)
qed

lemma paused_world_simps:
  "track (self paused_world) = Some example_track"
  "channel (self paused_world) = Some example_channel"
  "node (self paused_world) = 1"
  "sent paused_world = []"
  "paused (self paused_world) = True"
  "volume (self paused_world) = 50"
  "voice_state (self paused_world) =
     [(''event'', example_event),
      (''sessionId'', JStr ''abc'')]"
  "ident (self paused_world) = 7"
  by (simp_all add: paused_world_def playing_world_def example_world_def example_player_def)

theorem change_node_replays_state_witness:
  "sent (snd (change_node reliable pick_node2 2000.75 2001 None paused_world)) =
     [(1, [(''op'', JStr ''destroy''), (''guildId'', JStr ''42'')]),
      (2, [(''op'', JStr ''voiceUpdate''), (''guildId'', JStr ''42''),
           (''event'', example_event),
           (''sessionId'', JStr ''abc'')]),
      (2, [(''op'', JStr ''play''), (''guildId'', JStr ''42''), (''track'', JStr ''QAAAjQIA''),
           (''startTime'', JInt 500)]),
      (2, [(''op'', JStr ''pause''), (''guildId'', JStr ''42''), (''pause'', JBool True)]),
      (2, [(''op'', JStr ''volume''), (''guildId'', JStr ''42''), (''volume'', JInt 50)])] \<and>
   last_update (self (snd (change_node reliable pick_node2 2000.75 2001 None paused_world))) =
     Some 2001"
proof -
  have pos: "position 2000.75 (self paused_world) = Inr 500"
    by (simp add: change_node_eval example_defs)
  have n: "node (self (snd (change_node reliable pick_node2 2000.75 2001 None paused_world))) = 2"
    by (simp add: change_node_eval example_defs)
  have "{''sessionId'', ''event''} = set (map fst (voice_state (self paused_world)))"
    by (auto simp: paused_world_simps)
  then show ?thesis
    using change_node_replays_state [OF paused_world_change paused_world_simps(1)]
      pos n str_int_examples
    by (simp add: paused_world_simps example_track_simps example_world_simps)
qed

subsection \<open>The registries\<close>

lemma replay_keeps:
  assumes "change_node_replay raises now1 now2 w = (Returned, w')"
  shows "nodes w' = nodes w" and "node (self w') = node (self w)"
    and "ident (self w') = ident (self w)" and "channel (self w') = channel (self w)"
proof -
  have d: "\<And>v. nodes (snd (dispatch_voice_update raises v)) = nodes v \<and>
        node (self (snd (dispatch_voice_update raises v))) = node (self v) \<and>
        ident (self (snd (dispatch_voice_update raises v))) = ident (self v) \<and>
        channel (self (snd (dispatch_voice_update raises v))) = channel (self v)"
    by (simp add: dispatch_voice_update_def split: option.splits)
  have t: "\<And>v. nodes (snd (replay_track raises now1 now2 v)) = nodes v \<and>
        node (self (snd (replay_track raises now1 now2 v))) = node (self v) \<and>
        ident (self (snd (replay_track raises now1 now2 v))) = ident (self v) \<and>
        channel (self (snd (replay_track raises now1 now2 v))) = channel (self v)"
    by (simp add: replay_track_def Let_def snd_and_then split: option.splits sum.splits)
  have v: "\<And>v. nodes (snd (replay_volume raises v)) = nodes v \<and>
        node (self (snd (replay_volume raises v))) = node (self v) \<and>
        ident (self (snd (replay_volume raises v))) = ident (self v) \<and>
        channel (self (snd (replay_volume raises v))) = channel (self v)"
    by (simp add: replay_volume_def split: option.splits)
  from assms obtain wa wb where
    a: "(if voice_state (self w) \<noteq> [] then dispatch_voice_update raises w else (Returned, w))
          = (Returned, wa)" and
    b: "replay_track raises now1 now2 wa = (Returned, wb)" and
    c: "replay_volume raises wb = (Returned, w')"
    unfolding change_node_replay_def and_then_eq_Returned by blast
  have wa: "wa = snd (if voice_state (self w) \<noteq> [] then dispatch_voice_update raises w else (Returned, w))"
    using a by simp
  have wb: "wb = snd (replay_track raises now1 now2 wa)" using b by simp
  have w': "w' = snd (replay_volume raises wb)" using c by simp
  have ka: "nodes wa = nodes w \<and> node (self wa) = node (self w) \<and>
        ident (self wa) = ident (self w) \<and> channel (self wa) = channel (self w)"
    unfolding wa using d [of w] by simp
  show "nodes w' = nodes w" and "node (self w') = node (self w)"
    and "ident (self w') = ident (self w)" and "channel (self w') = channel (self w)"
    unfolding w' wb using ka t [of wa] v [of "snd (replay_track raises now1 now2 wa)"]
    by simp_all
qed

text \<open>
  C6. After a \<open>change_node\<close> that returns, the new node differs from the old one, its
  registry maps the player's guild id to the player and the old node's registry has no
  entry for that guild id. A player registered on its own node alone before the call is
  registered on at most one node in each state between the four parts: on the old node
  still after the choice of the target, on no node after the removal, on the new node after
  the insertion and at the end. Where the target is left to the selector, the selector
  returns available nodes only, which is what the closing of the current node relies on.
\<close>

theorem change_node_moves_registration:
  assumes ok: "change_node raises sel now1 now2 arg w = (Returned, w')"
    and avail: "arg = None \<longrightarrow> (\<forall>ns r s k. sel ns r s = Some k \<longrightarrow> available (ns k))"
  shows "\<exists>n w1 w2 w3 c.
           change_node_select sel arg w = (Inr n, w1) \<and>
           change_node_detach raises w1 = (Returned, w2) \<and>
           change_node_attach n w2 = (Returned, w3) \<and>
           change_node_replay raises now1 now2 w3 = (Returned, w') \<and>
           n \<noteq> node (self w) \<and> node (self w') = n \<and>
           channel (self w) = Some c \<and>
           players (nodes w' n) (guild_id (channel_guild c)) = Some (ident (self w)) \<and>
           players (nodes w' (node (self w))) (guild_id (channel_guild c)) = None \<and>
           ((\<forall>m. registered_on w m \<longrightarrow> m = node (self w)) \<longrightarrow>
              (\<forall>m. registered_on w1 m \<longrightarrow> m = node (self w)) \<and>
              (\<forall>m. \<not> registered_on w2 m) \<and>
              (\<forall>m. registered_on w3 m \<longrightarrow> m = n) \<and>
              (\<forall>m. registered_on w' m \<longrightarrow> m = n))"
proof -
  from ok obtain n w1 w2 w3 where
    sel: "change_node_select sel arg w = (Inr n, w1)" and
    det: "change_node_detach raises w1 = (Returned, w2)" and
    att: "change_node_attach n w2 = (Returned, w3)" and
    rep: "change_node_replay raises now1 now2 w3 = (Returned, w')"
    unfolding change_node_Returned by blast
  let ?old = "node (self w)"
  have s1: "self w1 = self w" and p1: "\<And>m. players (nodes w1 m) = players (nodes w m)"
    using select_Inr [OF sel] by simp_all
  from detach_channel [OF det] s1 obtain c where ch: "channel (self w) = Some c" by auto
  let ?gid = "guild_id (channel_guild c)"
  have ch1: "channel (self w1) = Some c" using ch s1 by simp
  have s2: "self w2 = self w"
    and n2: "nodes w2 = (nodes w1)(?old := (nodes w1 ?old)
            \<lparr>players := (players (nodes w1 ?old))(?gid := None)\<rparr>)"
    using detach_Returned(1,3) [OF det ch1] s1 by simp_all
  have ch2: "channel (self w2) = Some c" using ch s2 by simp
  have s3: "self w3 = (self w)\<lparr>node := n\<rparr>"
    and n3: "nodes w3 = (nodes w2)(n := (nodes w2 n)
            \<lparr>players := (players (nodes w2 n))(?gid \<mapsto> ident (self w))\<rparr>)"
    using attach_Returned(1,3) [OF att ch2] s2 by simp_all
  note k = replay_keeps [OF rep]
  have ne: "n \<noteq> ?old" by (rule select_differs [OF sel avail])
  have r: "(\<forall>m. registered_on w1 m \<longrightarrow> m = ?old) \<and> (\<forall>m. \<not> registered_on w2 m) \<and>
           (\<forall>m. registered_on w3 m \<longrightarrow> m = n) \<and> (\<forall>m. registered_on w' m \<longrightarrow> m = n)"
    if sole: "\<forall>m. registered_on w m \<longrightarrow> m = ?old"
  proof -
    have r1: "\<forall>m. registered_on w1 m \<longrightarrow> m = ?old"
      using sole by (simp add: registered_on_def s1 p1 ch)
    have r2: "\<forall>m. \<not> registered_on w2 m"
      using r1 by (auto simp: registered_on_def s1 s2 n2 ch)
    have r3: "\<forall>m. registered_on w3 m \<longrightarrow> m = n"
      using r2 by (auto simp: registered_on_def s2 s3 n3 ch split: if_splits)
    have r4: "\<forall>m. registered_on w' m \<longrightarrow> m = n"
      using r3 by (auto simp: registered_on_def k split: option.splits)
    from r1 r2 r3 r4 show ?thesis by blast
  qed
  have "node (self w') = n" using k(2) s3 by simp
  moreover have "players (nodes w' n) ?gid = Some (ident (self w))"
    by (simp add: k(1) n3)
  moreover have "players (nodes w' ?old) ?gid = None"
    using ne by (simp add: k(1) n3 n2)
  ultimately show ?thesis
    using sel det att rep ne ch r by blast
qed

theorem change_node_moves_registration_witness:
  "node (self (snd (change_node reliable pick_node2 2000.75 2001 None paused_world))) = 2 \<and>
   players (nodes (snd (change_node reliable pick_node2 2000.75 2001 None paused_world)) 2) 42 = Some 7 \<and>
   players (nodes (snd (change_node reliable pick_node2 2000.75 2001 None paused_world)) 1) 42 = None \<and>
   \<not> registered_on
       (snd (change_node_detach reliable (snd (change_node_select pick_node2 None paused_world)))) 1 \<and>
   \<not> registered_on
       (snd (change_node_detach reliable (snd (change_node_select pick_node2 None paused_world)))) 2 \<and>
   \<not> registered_on (snd (change_node reliable pick_node2 2000.75 2001 None paused_world)) 1"
proof -
  let ?w' = "snd (change_node reliable pick_node2 2000.75 2001 None paused_world)"
  have avail: "None = (None :: nat option) \<longrightarrow>
                 (\<forall>ns r s k. pick_node2 ns r s = Some k \<longrightarrow> available (ns k))"
    by (simp add: pick_node2_def)
  have sole: "\<forall>m. registered_on paused_world m \<longrightarrow> m = node (self paused_world)"
    by (simp add: registered_on_def example_defs)
  from change_node_moves_registration [OF paused_world_change avail]
  obtain n w1 w2 w3 c where
    st: "change_node_select pick_node2 None paused_world = (Inr n, w1)"
      "change_node_detach reliable w1 = (Returned, w2)" and
    f: "n \<noteq> node (self paused_world)" "node (self ?w') = n"
      "channel (self paused_world) = Some c"
      "players (nodes ?w' n) (guild_id (channel_guild c)) = Some (ident (self paused_world))"
      "players (nodes ?w' (node (self paused_world))) (guild_id (channel_guild c)) = None" and
    r: "(\<forall>m. registered_on paused_world m \<longrightarrow> m = node (self paused_world)) \<longrightarrow>
          (\<forall>m. registered_on w1 m \<longrightarrow> m = node (self paused_world)) \<and>
          (\<forall>m. \<not> registered_on w2 m) \<and>
          (\<forall>m. registered_on w3 m \<longrightarrow> m = n) \<and>
          (\<forall>m. registered_on ?w' m \<longrightarrow> m = n)"
    by blast
  have w2: "w2 = snd (change_node_detach reliable (snd (change_node_select pick_node2 None paused_world)))"
    using st by simp
  have two: "node (self ?w') = 2"
    by (simp add: change_node_eval example_defs)
  from r sole have none: "\<forall>m. \<not> registered_on w2 m" and last: "\<forall>m. registered_on ?w' m \<longrightarrow> m = n"
    by blast+
  from last f(1) have "\<not> registered_on ?w' 1"
    by (auto simp: paused_world_simps)
  with none f two show ?thesis
    unfolding w2 by (simp add: paused_world_simps example_world_simps)
qed

subsection \<open>A failing destroy\<close>

text \<open>
  What \<open>change_node\<close> does once a target node is chosen and the \<^verbatim>\<open>destroy\<close> send raises:
  it ends with that exception, no handler surrounding the send. The player has been
  removed from the old node's registry by then; the player itself, so its node, is
  unchanged, no other registry is touched, so the player is not entered in the new node's,
  and \<^verbatim>\<open>destroy\<close> is the only call of \<^verbatim>\<open>_send\<close> made: nothing is replayed.
\<close>

lemma destroy_failure_aborts:
  assumes sel: "change_node_select sel arg w = (Inr n, w1)"
    and ch: "channel (self w) = Some c"
    and reg: "players (nodes w (node (self w))) (guild_id (channel_guild c)) \<noteq> None"
    and fail: "raises (node (self w))
                 [(''op'', JStr ''destroy''),
                  (''guildId'', JStr (str_int (guild_id (channel_guild c))))]"
  shows "fst (change_node raises sel now1 now2 arg w) = Raised SendError \<and>
         self (snd (change_node raises sel now1 now2 arg w)) = self w \<and>
         sent (snd (change_node raises sel now1 now2 arg w)) =
           sent w @ [(node (self w),
                      [(''op'', JStr ''destroy''),
                       (''guildId'', JStr (str_int (guild_id (channel_guild c))))])] \<and>
         players (nodes (snd (change_node raises sel now1 now2 arg w)) (node (self w)))
           (guild_id (channel_guild c)) = None \<and>
         (\<forall>m. m \<noteq> node (self w) \<longrightarrow>
              players (nodes (snd (change_node raises sel now1 now2 arg w)) m) =
              players (nodes w m))"
proof -
  have s1: "self w1 = self w" "sent w1 = sent w"
    and p1: "\<And>m. players (nodes w1 m) = players (nodes w m)"
    using select_Inr [OF sel] by simp_all
  let ?gid = "guild_id (channel_guild c)"
  let ?old = "node (self w)"
  let ?w2 = "w1\<lparr>nodes := (nodes w1)(?old := (nodes w1 ?old)
                 \<lparr>players := (players (nodes w1 ?old))(?gid := None)\<rparr>),
               sent := sent w @ [(?old, [(''op'', JStr ''destroy''), (''guildId'', JStr (str_int ?gid))])]\<rparr>"
  have det: "change_node_detach raises w1 = (Raised SendError, ?w2)"
    using ch reg fail by (simp add: change_node_detach_def Let_def send_def s1 p1)
  have "change_node raises sel now1 now2 arg w = (Raised SendError, ?w2)"
    by (simp add: change_node_def sel det)
  then show ?thesis by (simp add: s1 p1)
qed

text \<open>
  A player that is in its node's registry no more cannot change node: \<^verbatim>\<open>del\<close> raises
  \<^verbatim>\<open>KeyError\<close> before anything is sent.
\<close>

lemma change_node_unregistered:
  assumes "change_node_select sel arg w = (Inr n, w1)"
    and "channel (self w) = Some c"
    and "players (nodes w (node (self w))) (guild_id (channel_guild c)) = None"
  shows "change_node raises sel now1 now2 arg w = (Raised KeyError, w1)"
proof -
  have "self w1 = self w" and "\<And>m. players (nodes w1 m) = players (nodes w m)"
    using select_Inr [OF assms(1)] by simp_all
  with assms(2,3) have "change_node_detach raises w1 = (Raised KeyError, w1)"
    by (simp add: change_node_detach_def Let_def)
  with assms(1) show ?thesis by (simp add: change_node_def)
qed

text \<open>
  C7. The claim has a failing \<^verbatim>\<open>destroy\<close> logged and ignored and the changeover completed,
  and the docstring of \<^verbatim>\<open>change_node\<close> offers the method for a node that fails. With node 1
  down, \<open>change_node\<close> to node 2 raises what the send raised: the player's node is still 1,
  the player is in the registry of neither node, and \<^verbatim>\<open>destroy\<close> is the only call of
  \<^verbatim>\<open>_send\<close> made. The player is stranded: a second \<open>change_node\<close> to node 2, over a
  transport that never raises, raises \<^verbatim>\<open>KeyError\<close>.
\<close>

theorem destroy_failure_strands_player:
  "fst (change_node node1_down pick_node2 0 0 (Some 2) example_world) = Raised SendError \<and>
   node (self (snd (change_node node1_down pick_node2 0 0 (Some 2) example_world))) = 1 \<and>
   players (nodes (snd (change_node node1_down pick_node2 0 0 (Some 2) example_world)) 2) 42 = None \<and>
   players (nodes (snd (change_node node1_down pick_node2 0 0 (Some 2) example_world)) 1) 42 = None \<and>
   sent (snd (change_node node1_down pick_node2 0 0 (Some 2) example_world)) =
     [(1, [(''op'', JStr ''destroy''), (''guildId'', JStr ''42'')])] \<and>
   fst (change_node reliable pick_node2 0 0 (Some 2)
          (snd (change_node node1_down pick_node2 0 0 (Some 2) example_world))) = Raised KeyError"
  using str_int_examples by (simp add: change_node_eval example_defs)

section \<open>The voice handshake\<close>

lemma keys_update: "fst ` set (AList.update k v al) = insert k (fst ` set al)"
  by (simp add: dom_update)

lemma both_keys_generic:
  "A \<subseteq> {a, b} \<Longrightarrow> a \<noteq> b \<Longrightarrow> ({a, b} = insert b A) = (a \<in> A)"
  "A \<subseteq> {a, b} \<Longrightarrow> a \<noteq> b \<Longrightarrow> ({a, b} = insert a A) = (b \<in> A)"
  by auto

lemma both_keys_event:
  assumes "fst ` set vs \<subseteq> {''sessionId'', ''event''}"
  shows "({''sessionId'', ''event''} = insert ''event'' (fst ` set vs)) = (''sessionId'' \<in> fst ` set vs)"
proof -
  have "''sessionId'' \<noteq> ''event''" by simp
  from both_keys_generic(1) [OF assms this] show ?thesis .
qed

lemma both_keys_session:
  assumes "fst ` set vs \<subseteq> {''sessionId'', ''event''}"
  shows "({''sessionId'', ''event''} = insert ''sessionId'' (fst ` set vs)) = (''event'' \<in> fst ` set vs)"
proof -
  have "''sessionId'' \<noteq> ''event''" by simp
  from both_keys_generic(2) [OF assms this] show ?thesis .
qed

text \<open>
  C1, amended. The player has a channel and its \<open>voice_state\<close> holds no keys but the two
  fragments'. Submitting the event stores it and then dispatches the merged voice update
  exactly once if the session id is stored, and not at all otherwise; submitting the
  session id with the channel id of a channel of the player's guild stores it and dispatches
  exactly once if the event is stored, and not at all otherwise. The command goes to the
  player's node and carries the stored fragments. Submitting the session id with no channel
  id clears both fragments and dispatches nothing. The dispatch is made on every such
  submission, whether or not the value is new. A session id submitted with a channel id
  that the guild has no channel of is no part of the statement.
\<close>

theorem handshake_dispatch:
  assumes ch: "channel (self w) = Some c"
    and keys: "fst ` set (voice_state (self w)) \<subseteq> {''sessionId'', ''event''}"
  shows "sent (snd (on_voice_server_update raises data w)) =
           sent w @
           (if ''sessionId'' \<in> fst ` set (voice_state (self w))
            then [(node (self w),
                   [(''op'', JStr ''voiceUpdate''),
                    (''guildId'', JStr (str_int (guild_id (channel_guild c))))]
                   @ AList.update ''event'' data (voice_state (self w)))]
            else []) \<and>
         voice_state (self (snd (on_voice_server_update raises data w))) =
           AList.update ''event'' data (voice_state (self w)) \<and>
         (n \<in> set (channels (channel_guild c)) \<longrightarrow>
            sent (snd (on_voice_state_update raises sid (Some n) w)) =
              sent w @
              (if ''event'' \<in> fst ` set (voice_state (self w))
               then [(node (self w),
                      [(''op'', JStr ''voiceUpdate''),
                       (''guildId'', JStr (str_int (guild_id (channel_guild c))))]
                      @ AList.update ''sessionId'' (JStr sid) (voice_state (self w)))]
               else []) \<and>
            voice_state (self (snd (on_voice_state_update raises sid (Some n) w))) =
              AList.update ''sessionId'' (JStr sid) (voice_state (self w))) \<and>
         on_voice_state_update raises sid None w =
           (Returned, w\<lparr>self := (self w)\<lparr>voice_state := []\<rparr>\<rparr>)"
proof (intro conjI impI)
  show "sent (snd (on_voice_server_update raises data w)) =
           sent w @
           (if ''sessionId'' \<in> fst ` set (voice_state (self w))
            then [(node (self w),
                   [(''op'', JStr ''voiceUpdate''),
                    (''guildId'', JStr (str_int (guild_id (channel_guild c))))]
                   @ AList.update ''event'' data (voice_state (self w)))]
            else [])"
    using ch both_keys_event [OF keys]
    by (simp add: on_voice_server_update_def dispatch_voice_update_def keys_update
        del: set_map flip: image_set)
  show "voice_state (self (snd (on_voice_server_update raises data w))) =
           AList.update ''event'' data (voice_state (self w))"
    using ch by (simp add: on_voice_server_update_def dispatch_voice_update_def)
  show "on_voice_state_update raises sid None w =
           (Returned, w\<lparr>self := (self w)\<lparr>voice_state := []\<rparr>\<rparr>)"
    by (simp add: on_voice_state_update_def Let_def)
next
  assume n: "n \<in> set (channels (channel_guild c))"
  show "sent (snd (on_voice_state_update raises sid (Some n) w)) =
              sent w @
              (if ''event'' \<in> fst ` set (voice_state (self w))
               then [(node (self w),
                      [(''op'', JStr ''voiceUpdate''),
                       (''guildId'', JStr (str_int (guild_id (channel_guild c))))]
                      @ AList.update ''sessionId'' (JStr sid) (voice_state (self w)))]
               else [])"
    using ch n both_keys_session [OF keys]
    by (simp add: on_voice_state_update_def dispatch_voice_update_def keys_update Let_def
        del: set_map flip: image_set)
  show "voice_state (self (snd (on_voice_state_update raises sid (Some n) w))) =
              AList.update ''sessionId'' (JStr sid) (voice_state (self w))"
    using ch n by (simp add: on_voice_state_update_def dispatch_voice_update_def Let_def)
qed

text \<open>
  C1 as stated has one dispatch per distinct pair of session id and event. Submitting the
  event, then the session id, then the same session id again dispatches the same merged
  voice update twice.
\<close>

theorem handshake_same_pair_twice:
  "sent (snd (on_voice_state_update reliable ''abc'' (Some 5)
         (snd (on_voice_state_update reliable ''abc'' (Some 5)
            (snd (on_voice_server_update reliable example_event example_world)))))) =
     [(1, [(''op'', JStr ''voiceUpdate''), (''guildId'', JStr ''42''),
           (''event'', example_event), (''sessionId'', JStr ''abc'')]),
      (1, [(''op'', JStr ''voiceUpdate''), (''guildId'', JStr ''42''),
           (''event'', example_event), (''sessionId'', JStr ''abc'')])]"
  using str_int_examples
  by (simp add: on_voice_state_update_def on_voice_server_update_def dispatch_voice_update_def
      send_def Let_def example_defs insert_commute)

lemma event_only_world:
  "snd (on_voice_server_update reliable example_event example_world) =
     example_world\<lparr>self := example_player\<lparr>voice_state := [(''event'', example_event)]\<rparr>\<rparr>"
  by (simp add: on_voice_server_update_def dispatch_voice_update_def example_world_def
      example_player_def)

theorem handshake_dispatch_witness:
  "sent (snd (on_voice_server_update reliable example_event example_world)) = [] \<and>
   sent (snd (on_voice_state_update reliable ''abc'' (Some 5)
           (snd (on_voice_server_update reliable example_event example_world)))) =
     [(1, [(''op'', JStr ''voiceUpdate''), (''guildId'', JStr ''42''),
           (''event'', example_event), (''sessionId'', JStr ''abc'')])] \<and>
   sent (snd (on_voice_server_update reliable (JObj [(''token'', JStr ''new'')]) paused_world)) =
     [(1, [(''op'', JStr ''voiceUpdate''), (''guildId'', JStr ''42''),
           (''event'', JObj [(''token'', JStr ''new'')]), (''sessionId'', JStr ''abc'')])] \<and>
   fst (on_voice_state_update reliable ''abc'' None paused_world) = Returned \<and>
   voice_state (self (snd (on_voice_state_update reliable ''abc'' None paused_world))) = [] \<and>
   sent (snd (on_voice_state_update reliable ''abc'' None paused_world)) = []"
proof -
  let ?w1 = "example_world\<lparr>self := example_player\<lparr>voice_state := [(''event'', example_event)]\<rparr>\<rparr>"
  have k0: "fst ` set (voice_state (self example_world)) \<subseteq> {''sessionId'', ''event''}"
    by (simp add: example_world_simps)
  have a: "sent (snd (on_voice_server_update reliable example_event example_world)) = []"
    using handshake_dispatch [OF example_world_simps(1) k0, where raises = reliable
        and data = example_event]
    by (simp add: example_world_simps)
  have ch1: "channel (self ?w1) = Some example_channel"
    by (simp add: example_player_def)
  have k1: "fst ` set (voice_state (self ?w1)) \<subseteq> {''sessionId'', ''event''}"
    by simp
  have b: "sent (snd (on_voice_state_update reliable ''abc'' (Some 5) ?w1)) =
     [(1, [(''op'', JStr ''voiceUpdate''), (''guildId'', JStr ''42''),
           (''event'', example_event), (''sessionId'', JStr ''abc'')])]"
    using handshake_dispatch [OF ch1 k1, where raises = reliable and sid = "''abc''" and n = 5]
      str_int_examples
    by (simp add: example_world_simps example_player_def example_world_def)
  have k2: "fst ` set (voice_state (self paused_world)) \<subseteq> {''sessionId'', ''event''}"
    by (simp add: paused_world_simps)
  have c: "sent (snd (on_voice_server_update reliable (JObj [(''token'', JStr ''new'')]) paused_world)) =
     [(1, [(''op'', JStr ''voiceUpdate''), (''guildId'', JStr ''42''),
           (''event'', JObj [(''token'', JStr ''new'')]), (''sessionId'', JStr ''abc'')])] \<and>
     on_voice_state_update reliable ''abc'' None paused_world =
       (Returned, paused_world\<lparr>self := (self paused_world)\<lparr>voice_state := []\<rparr>\<rparr>)"
    using handshake_dispatch [OF paused_world_simps(2) k2, where raises = reliable
        and data = "JObj [(''token'', JStr ''new'')]" and sid = "''abc''"]
      str_int_examples
    by (simp add: paused_world_simps example_world_simps)
  show ?thesis
    unfolding event_only_world using a b c
    by (simp add: event_only_world paused_world_simps)
qed

text \<open>
  A session id submitted with a channel id that the guild has no channel of: the lookup
  gives \<^verbatim>\<open>None\<close>, which is assigned to the channel, and the debug line of the dispatch
  raises before anything is sent, whatever fragments are stored.
\<close>

lemma handshake_unknown_channel:
  assumes "channel (self w) = Some c" and "n \<notin> set (channels (channel_guild c))"
  shows "fst (on_voice_state_update raises sid (Some n) w) = Raised AttributeError \<and>
         sent (snd (on_voice_state_update raises sid (Some n) w)) = sent w \<and>
         channel (self (snd (on_voice_state_update raises sid (Some n) w))) = None"
  using assms by (simp add: on_voice_state_update_def dispatch_voice_update_def Let_def)

lemma handshake_unknown_channel_example:
  "fst (on_voice_state_update reliable ''abc'' (Some 99) paused_world) = Raised AttributeError \<and>
   sent (snd (on_voice_state_update reliable ''abc'' (Some 99) paused_world)) = []"
proof -
  have "99 \<notin> set (channels (channel_guild example_channel))"
    by (simp add: example_world_simps)
  from handshake_unknown_channel [OF paused_world_simps(2) this, of reliable "''abc''"]
  show ?thesis by (simp add: paused_world_simps)
qed

section \<open>What every sequence of calls preserves\<close>

text \<open>
  What each part of \<open>change_node\<close> does to the player: nothing but the node and the last
  update are assigned, whether it returns or raises.
\<close>

lemma self_dispatch: "self (snd (dispatch_voice_update raises w)) = self w"
  by (simp add: dispatch_voice_update_def split: option.splits)

lemma self_replay_volume: "self (snd (replay_volume raises w)) = self w"
  by (simp add: replay_volume_def split: option.splits)

lemma self_replay_track:
  "self (snd (replay_track raises now1 now2 w)) = self w \<or>
   self (snd (replay_track raises now1 now2 w)) = (self w)\<lparr>last_update := Some now2\<rparr>"
  by (simp add: replay_track_def Let_def snd_and_then split: option.splits sum.splits)

lemma self_replay:
  "self (snd (change_node_replay raises now1 now2 w)) = self w \<or>
   self (snd (change_node_replay raises now1 now2 w)) = (self w)\<lparr>last_update := Some now2\<rparr>"
proof -
  let ?a = "if voice_state (self w) \<noteq> [] then dispatch_voice_update raises w else (Returned, w)"
  have a: "self (snd ?a) = self w" by (simp add: self_dispatch)
  show ?thesis
    unfolding change_node_replay_def
    using a self_replay_track [of raises now1 now2 "snd ?a"]
    by (auto simp: snd_and_then self_replay_volume)
qed

lemma self_select: "self (snd (change_node_select sel arg w)) = self w"
  by (simp add: change_node_select_def Let_def split: option.splits)

lemma self_detach: "self (snd (change_node_detach raises w)) = self w"
  by (simp add: change_node_detach_def Let_def split: option.splits)

lemma self_attach: "self (snd (change_node_attach n w)) = (self w)\<lparr>node := n\<rparr>"
  by (simp add: change_node_attach_def Let_def split: option.splits)

lemma self_change_node:
  "(self (snd (change_node raises sel now1 now2 arg w)))
      \<lparr>node := node (self w), last_update := last_update (self w)\<rparr> = self w \<and>
   (last_update (self (snd (change_node raises sel now1 now2 arg w))) = last_update (self w) \<or>
    last_update (self (snd (change_node raises sel now1 now2 arg w))) = Some now2)"
proof (cases "change_node_select sel arg w")
  case (Pair r w1)
  have s1: "self w1 = self w" using self_select [of sel arg w] Pair by simp
  show ?thesis
  proof (cases r)
    case (Inl e)
    with Pair s1 show ?thesis by (simp add: change_node_def)
  next
    case (Inr n)
    let ?d = "change_node_detach raises w1"
    let ?x = "and_then ?d (change_node_attach n)"
    have sd: "self (snd ?d) = self w" using self_detach [of raises w1] s1 by simp
    have sx: "self (snd ?x) = self w \<or> self (snd ?x) = (self w)\<lparr>node := n\<rparr>"
      using sd self_attach [of n "snd ?d"] by (simp add: snd_and_then)
    have c: "change_node raises sel now1 now2 arg w =
               and_then ?x (change_node_replay raises now1 now2)"
      using Pair Inr by (simp add: change_node_def)
    have "self (snd (change_node raises sel now1 now2 arg w)) = self (snd ?x) \<or>
          self (snd (change_node raises sel now1 now2 arg w)) =
            (self (snd ?x))\<lparr>last_update := Some now2\<rparr>"
      unfolding c using self_replay [of raises now1 now2 "snd ?x"]
      by (simp add: snd_and_then)
    with sx show ?thesis by auto
  qed
qed

lemma change_node_keeps:
  "track (self (snd (change_node raises sel now1 now2 arg w))) = track (self w)"
  "last_position (self (snd (change_node raises sel now1 now2 arg w))) = last_position (self w)"
  "voice_state (self (snd (change_node raises sel now1 now2 arg w))) = voice_state (self w)"
  "paused (self (snd (change_node raises sel now1 now2 arg w))) = paused (self w)"
  "channel (self (snd (change_node raises sel now1 now2 arg w))) = channel (self w)"
  "connected_flag (self (snd (change_node raises sel now1 now2 arg w))) = connected_flag (self w)"
proof -
  let ?p = "self (snd (change_node raises sel now1 now2 arg w))"
  have e: "?p\<lparr>node := node (self w), last_update := last_update (self w)\<rparr> = self w"
    using self_change_node [where raises = raises and sel = sel and ?now1.0 = now1
        and ?now2.0 = now2 and arg = arg and w = w] by simp
  have "track (?p\<lparr>node := node (self w), last_update := last_update (self w)\<rparr>) = track (self w)"
    by (simp only: e)
  then show "track ?p = track (self w)" by simp
  have "last_position (?p\<lparr>node := node (self w), last_update := last_update (self w)\<rparr>) =
          last_position (self w)"
    by (simp only: e)
  then show "last_position ?p = last_position (self w)" by simp
  have "voice_state (?p\<lparr>node := node (self w), last_update := last_update (self w)\<rparr>) =
          voice_state (self w)"
    by (simp only: e)
  then show "voice_state ?p = voice_state (self w)" by simp
  have "paused (?p\<lparr>node := node (self w), last_update := last_update (self w)\<rparr>) =
          paused (self w)"
    by (simp only: e)
  then show "paused ?p = paused (self w)" by simp
  have "channel (?p\<lparr>node := node (self w), last_update := last_update (self w)\<rparr>) =
          channel (self w)"
    by (simp only: e)
  then show "channel ?p = channel (self w)" by simp
  have "connected_flag (?p\<lparr>node := node (self w), last_update := last_update (self w)\<rparr>) =
          connected_flag (self w)"
    by (simp only: e)
  then show "connected_flag ?p = connected_flag (self w)" by simp
qed

text \<open>A property that every call preserves holds after every sequence of calls.\<close>

lemma run_invariant_on:
  assumes "Q w"
    and "\<And>raises sel c v. (raises, sel, c) \<in> set cs \<Longrightarrow> Q v \<Longrightarrow> Q (snd (step raises sel c v))"
  shows "Q (run cs w)"
  using assms
proof (induction cs arbitrary: w)
  case Nil
  then show ?case by simp
next
  case (Cons x cs)
  obtain raises sel c where x: "x = (raises, sel, c)" by (cases x) auto
  have h: "Q (snd (step raises sel c w))"
    using Cons.prems by (simp add: x)
  show ?case
    unfolding x run.simps
    by (rule Cons.IH [OF h]) (use Cons.prems(2) in \<open>simp add: x\<close>)
qed

lemma run_invariant:
  assumes "Q w" and "\<And>raises sel c v. Q v \<Longrightarrow> Q (snd (step raises sel c v))"
  shows "Q (run cs w)"
  using assms(1)
proof (induction cs arbitrary: w)
  case Nil
  then show ?case by simp
next
  case (Cons x cs)
  obtain raises sel c where x: "x = (raises, sel, c)" by (cases x) auto
  show ?case
    unfolding x run.simps
    by (rule Cons.IH) (rule assms(2) [OF Cons.prems])
qed

lemma timing_step:
  assumes "track (self w) \<noteq> None \<longrightarrow> last_update (self w) \<noteq> None \<and> last_position (self w) \<noteq> None"
    and num: "\<And>now s. c = UpdateState now (Some s) \<Longrightarrow> state_position s \<noteq> Null"
  shows "track (self (snd (step raises sel c w))) \<noteq> None \<longrightarrow>
         last_update (self (snd (step raises sel c w))) \<noteq> None \<and>
         last_position (self (snd (step raises sel c w))) \<noteq> None"
proof (cases c)
  case (ChangeNode n1 n2 arg)
  then show ?thesis
    using assms(1) self_change_node [where raises = raises and sel = sel and ?now1.0 = n1
        and ?now2.0 = n2 and arg = arg and w = w]
    by (auto simp: change_node_keeps)
next
  case (Play t replace start endt)
  then show ?thesis
    using assms(1) by (auto simp: play_def Let_def snd_and_then str_track_def split: option.splits)
next
  case (OnVoiceStateUpdate sid cid)
  then show ?thesis
    using assms(1)
    by (auto simp: on_voice_state_update_def self_dispatch Let_def split: option.splits)
next
  case (UpdateState now st)
  show ?thesis
  proof (cases st)
    case None
    with UpdateState assms(1) show ?thesis by (simp add: update_state_def)
  next
    case (Some s)
    with UpdateState num have "state_position s \<noteq> Null" by simp
    with UpdateState Some show ?thesis
      by (cases "state_position s") (simp_all add: update_state_def dict_get_def)
  qed
qed (use assms(1) in \<open>auto simp: stop_def set_pause_def pause_def resume_def set_volume_def seek_def
      on_voice_server_update_def hook_def connect_def disconnect_def
      self_dispatch snd_and_then Let_def str_track_def split: option.splits sum.splits\<close>)

lemma keys_step:
  assumes "fst ` set (voice_state (self w)) \<subseteq> {''sessionId'', ''event''}"
  shows "fst ` set (voice_state (self (snd (step raises sel c w)))) \<subseteq> {''sessionId'', ''event''}"
proof (cases c)
  case (ChangeNode n1 n2 arg)
  then show ?thesis
    using assms by (simp add: change_node_keeps)
next
  case (Play t replace start endt)
  then show ?thesis
    using assms by (auto simp: play_def Let_def snd_and_then str_track_def split: option.splits)
next
  case (OnVoiceStateUpdate sid cid)
  then show ?thesis
    using assms
    by (auto simp: on_voice_state_update_def self_dispatch Let_def dom_update split: option.splits)
next
  case (OnVoiceServerUpdate data)
  then show ?thesis
    using assms
    by (auto simp: on_voice_server_update_def self_dispatch dom_update)
qed (use assms in \<open>auto simp: stop_def set_pause_def pause_def resume_def set_volume_def seek_def
      update_state_def hook_def connect_def disconnect_def
      snd_and_then Let_def str_track_def split: option.splits sum.splits\<close>)

text \<open>
  From the world the constructor builds, \<open>voice_state\<close> never holds a key other than the
  two fragments', and whenever a track is loaded the last update and the last position are
  numbers (\<open>play\<close> assigns them before it assigns the track), as long as no state report
  carries a \<^verbatim>\<open>null\<close> position: the states that the theorems on the position and on the
  handshake speak about are the ones a player is in.
\<close>

lemma timing_fields_along_run:
  assumes "Player_init i ch best ns = Inr w0"
    and "\<And>raises sel now s. (raises, sel, UpdateState now (Some s)) \<in> set cs
           \<Longrightarrow> state_position s \<noteq> Null"
  shows "track (self (run cs w0)) \<noteq> None \<longrightarrow>
         last_update (self (run cs w0)) \<noteq> None \<and> last_position (self (run cs w0)) \<noteq> None"
proof (rule run_invariant_on [where Q = "\<lambda>w. track (self w) \<noteq> None \<longrightarrow>
         last_update (self w) \<noteq> None \<and> last_position (self w) \<noteq> None"])
  show "track (self w0) \<noteq> None \<longrightarrow> last_update (self w0) \<noteq> None \<and> last_position (self w0) \<noteq> None"
    using assms(1) by (auto simp: Player_init_def split: option.splits)
next
  fix raises sel c and v :: world
  assume m: "(raises, sel, c) \<in> set cs"
    and q: "track (self v) \<noteq> None \<longrightarrow> last_update (self v) \<noteq> None \<and> last_position (self v) \<noteq> None"
  show "track (self (snd (step raises sel c v))) \<noteq> None \<longrightarrow>
        last_update (self (snd (step raises sel c v))) \<noteq> None \<and>
        last_position (self (snd (step raises sel c v))) \<noteq> None"
    by (rule timing_step [OF q]) (use m assms(2) in blast)
qed

lemma voice_state_keys_along_run:
  assumes "Player_init i ch best ns = Inr w0"
  shows "fst ` set (voice_state (self (run cs w0))) \<subseteq> {''sessionId'', ''event''}"
proof (rule run_invariant [where Q = "\<lambda>w. fst ` set (voice_state (self w)) \<subseteq> {''sessionId'', ''event''}"])
  show "fst ` set (voice_state (self w0)) \<subseteq> {''sessionId'', ''event''}"
    using assms by (auto simp: Player_init_def split: option.splits)
qed (rule keys_step)

end
